theory Spec2Isabelle
  imports Complex_Main "HOL-Library.Sublist"
begin

section \<open>Values, thrown errors and the outcome of an awaited operation\<close>

text \<open>
  The program is a Node.js module: a class \<open>ZomotoStandalone\<close> with the helpers
  \<open>_withTimeout\<close> and \<open>_waitForSelectorWithRetry\<close>, the procedure \<open>sendOTP\<close>, a
  module-level \<open>sessionCache\<close> and the exported \<open>handler\<close>. The browser library is
  outside the program: each of its calls is an event of a trace, and what the call
  answers is given by an environment.

  JavaScript values that reach the program from a request body.
\<close>

datatype jsval =
    JUndefined
  | JNull
  | JBool bool
  | JNum rat
  | JStr string
  | JArr "jsval list"
  | JObj "(string \<times> jsval) list"

text \<open>
  A thrown value. \<open>Error m\<close> is \<open>new Error(m)\<close> built by this module, \<open>TypeError m\<close> is
  raised by the runtime on a property access on \<open>null\<close> or \<open>undefined\<close>,
  \<open>SyntaxError m\<close> is raised by \<open>JSON.parse\<close>,
  \<open>LibraryError m\<close> is an error object with which a call of the browser library rejected
  (only its message is kept), and \<open>ThrownUndefined\<close> is the value of \<open>throw lastError\<close>
  while \<open>lastError\<close> was never assigned.
\<close>

datatype error =
    Error string
  | TypeError string
  | SyntaxError string
  | LibraryError string
  | ThrownUndefined

fun message :: "error \<Rightarrow> string option" where
  "message (Error m) = Some m"
| "message (TypeError m) = Some m"
| "message (SyntaxError m) = Some m"
| "message (LibraryError m) = Some m"
| "message ThrownUndefined = None"

text \<open>
  What the environment answers to a call of the browser library that the program awaits:
  the call resolves with a value or rejects with an error of the library. Such a call is
  taken to settle (the library bounds its calls by timeouts of its own); only the four
  operations that \<open>sendOTP\<close> races against a timer may stay pending for ever.
\<close>

datatype 'a reply = Ok 'a | Fails string

text \<open>The outcome of an \<open>await\<close> in the program, and of an \<open>async\<close> function.\<close>

datatype 'a outcome = Resolves 'a | Rejects error | NeverSettles

fun await_reply :: "'a reply \<Rightarrow> 'a outcome" where
  "await_reply (Ok v) = Resolves v"
| "await_reply (Fails m) = Rejects (LibraryError m)"

section \<open>Promises in time and \<open>_withTimeout\<close>\<close>

text \<open>
  A promise is pending for ever, or settles a number of milliseconds after the call that
  is looked at. Timers fire exactly after their delay. Two settlements of the same
  millisecond are taken in the order of the array given to \<open>Promise.race\<close>.
\<close>

datatype 'a promise = Pending | Fulfilled nat 'a | Rejected nat error

fun settledAt :: "'a promise \<Rightarrow> nat option" where
  "settledAt Pending = None"
| "settledAt (Fulfilled t x) = Some t"
| "settledAt (Rejected t e) = Some t"

fun await :: "'a promise \<Rightarrow> 'a outcome" where
  "await Pending = NeverSettles"
| "await (Fulfilled t x) = Resolves x"
| "await (Rejected t e) = Rejects e"

text \<open>
  The promise of a raced call of the library: \<open>None\<close> when the call never settles,
  \<open>Some (t, r)\<close> when it settles after \<open>t\<close> milliseconds with the answer \<open>r\<close>.
\<close>

fun promise_of :: "(nat \<times> 'a reply) option \<Rightarrow> 'a promise" where
  "promise_of None = Pending"
| "promise_of (Some (t, Ok v)) = Fulfilled t v"
| "promise_of (Some (t, Fails m)) = Rejected t (LibraryError m)"

definition earlier :: "'a promise \<Rightarrow> 'a promise \<Rightarrow> 'a promise" where
  "earlier p q =
     (case settledAt p of
        None \<Rightarrow> q
      | Some s \<Rightarrow> (case settledAt q of None \<Rightarrow> p | Some t \<Rightarrow> if s \<le> t then p else q))"

fun Promise_race :: "'a promise list \<Rightarrow> 'a promise" where
  "Promise_race [] = Pending"
| "Promise_race (p # ps) = earlier p (Promise_race ps)"

text \<open>Template interpolation of a non-negative integer: its decimal digits.\<close>

fun Number_toString :: "nat \<Rightarrow> string" where
  "Number_toString n =
     (if n < 10 then [''0123456789'' ! n]
      else Number_toString (n div 10) @ [''0123456789'' ! (n mod 10)])"

declare Number_toString.simps [simp del]

text \<open>
  \<^verbatim>\<open>
  async _withTimeout(promise, timeoutMs, operationName) {
    const timeoutPromise = new Promise((_, reject) => {
      setTimeout(() => {
        reject(new Error(`${operationName} timed out after ${timeoutMs}ms`));
      }, timeoutMs);
    });
    return Promise.race([promise, timeoutPromise]);
  }
  \<close>
\<close>

definition timeoutPromise :: "nat \<Rightarrow> string \<Rightarrow> 'a promise" where
  "timeoutPromise timeoutMs operationName =
     Rejected timeoutMs
       (Error (operationName @ '' timed out after '' @ Number_toString timeoutMs @ ''ms''))"

definition withTimeout :: "'a promise \<Rightarrow> nat \<Rightarrow> string \<Rightarrow> 'a promise" where
  "withTimeout promise timeoutMs operationName =
     Promise_race [promise, timeoutPromise timeoutMs operationName]"

section \<open>The trace of browser calls\<close>

datatype target = Page | Frame

text \<open>
  One event for each call that the program makes to the browser library or to a timer
  it waits for. An element is named by the selector under which it was found.
  \<open>WaitForSelector\<close> carries the selector, the \<open>timeout\<close> option and the \<open>visible\<close>
  option (absent is \<open>False\<close>). Console logging is not part of the trace.
\<close>

datatype event =
    Launch
  | NewPage
  | EvaluateOnNewDocument
  | SetViewport
  | SetExtraHTTPHeaders
  | SetUserAgent string
  | Goto string
  | Delay rat
  | Url
  | Title
  | WaitForSelector target string rat bool
  | Query target string
  | ContentFrame
  | Click string
  | BoundingBox string
  | MouseClick rat rat
  | TypeText string jsval
  | SessionCacheSet string
  | SetTimeout nat
  | SessionCacheDelete string
  | BrowserClose nat

text \<open>
  A piece of an \<open>async\<close> function: its outcome and the calls it made, in order.
  \<open>bnd\<close> is sequencing: what follows an \<open>await\<close> runs only when the awaited
  operation resolved.
\<close>

type_synonym 'a act = "'a outcome \<times> event list"

definition ret :: "'a \<Rightarrow> 'a act" where
  "ret x = (Resolves x, [])"

definition throw :: "error \<Rightarrow> 'a act" where
  "throw e = (Rejects e, [])"

definition after :: "event list \<Rightarrow> 'a act \<Rightarrow> 'a act" where
  "after evs a = (fst a, evs @ snd a)"

definition bnd :: "'a act \<Rightarrow> ('a \<Rightarrow> 'b act) \<Rightarrow> 'b act" where
  "bnd a f =
     (case fst a of
        Resolves x \<Rightarrow> after (snd a) (f x)
      | Rejects e \<Rightarrow> (Rejects e, snd a)
      | NeverSettles \<Rightarrow> (NeverSettles, snd a))"

definition try_catch :: "'a act \<Rightarrow> (error \<Rightarrow> 'a act) \<Rightarrow> 'a act" where
  "try_catch a h =
     (case fst a of
        Resolves x \<Rightarrow> a
      | Rejects e \<Rightarrow> after (snd a) (h e)
      | NeverSettles \<Rightarrow> a)"

definition call :: "event \<Rightarrow> 'a reply \<Rightarrow> 'a act" where
  "call ev r = (await_reply r, [ev])"

definition delay :: "rat \<Rightarrow> unit act" where
  "delay ms = (Resolves (), [Delay ms])"

section \<open>\<open>_waitForSelectorWithRetry\<close>\<close>

text \<open>
  \<^verbatim>\<open>
  async _waitForSelectorWithRetry(pageOrFrame, selector, options = {}) {
    const { timeout = 60000, retries = 3, retryDelay = 1000, visible = false } = options;
    let lastError;
    for (let attempt = 0; attempt <= retries; attempt++) {
      try {
        const element = await pageOrFrame.waitForSelector(selector, {
          timeout: attempt === 0 ? timeout : timeout / (retries + 1),
          visible,
        });
        return element;
      } catch (error) {
        lastError = error;
        if (attempt < retries) {
          const delay = retryDelay * Math.pow(2, attempt);
          await new Promise((resolve) => setTimeout(resolve, delay));
        }
      }
    }
    throw lastError;
  }
  \<close>
  The options are a record of optional fields; an absent field takes its default.
  \<open>retries\<close> is a count. Numbers of milliseconds are rationals, as the helper divides
  them. The first argument of the model is the environment: what
  \<open>pageOrFrame.waitForSelector\<close> answers at each attempt.
\<close>

record options =
  timeout :: "rat option"
  retries :: "nat option"
  retryDelay :: "rat option"
  visible :: "bool option"


definition attemptTimeout :: "rat \<Rightarrow> nat \<Rightarrow> nat \<Rightarrow> rat" where
  "attemptTimeout tmo rts attempt = (if attempt = 0 then tmo else tmo / of_nat (rts + 1))"

function retryLoop ::
  "(nat \<Rightarrow> 'a reply) \<Rightarrow> target \<Rightarrow> string \<Rightarrow> rat \<Rightarrow> nat \<Rightarrow> rat \<Rightarrow> bool \<Rightarrow>
     nat \<Rightarrow> error option \<Rightarrow> 'a act" where
  "retryLoop wfs pageOrFrame selector tmo rts dly vis attempt lastError =
     (if attempt \<le> rts then
        (case wfs attempt of
           Ok element \<Rightarrow>
             (Resolves element,
              [WaitForSelector pageOrFrame selector (attemptTimeout tmo rts attempt) vis])
         | Fails m \<Rightarrow>
             (if attempt < rts then
                after [WaitForSelector pageOrFrame selector (attemptTimeout tmo rts attempt) vis,
                       Delay (dly * 2 ^ attempt)]
                  (retryLoop wfs pageOrFrame selector tmo rts dly vis (attempt + 1)
                     (Some (LibraryError m)))
              else
                after [WaitForSelector pageOrFrame selector (attemptTimeout tmo rts attempt) vis]
                  (retryLoop wfs pageOrFrame selector tmo rts dly vis (attempt + 1)
                     (Some (LibraryError m)))))
      else
        throw (case lastError of None \<Rightarrow> ThrownUndefined | Some e \<Rightarrow> e))"
  by pat_completeness auto
termination
  by (relation "measure (\<lambda>(wfs, pageOrFrame, selector, tmo, rts, dly, vis, attempt, lastError).
        Suc rts - attempt)") auto

declare retryLoop.simps [simp del]

definition timeoutOf :: "options \<Rightarrow> rat" where
  "timeoutOf opts = (case timeout opts of None \<Rightarrow> 60000 | Some t \<Rightarrow> t)"

definition retriesOf :: "options \<Rightarrow> nat" where
  "retriesOf opts = (case retries opts of None \<Rightarrow> 3 | Some r \<Rightarrow> r)"

definition retryDelayOf :: "options \<Rightarrow> rat" where
  "retryDelayOf opts = (case retryDelay opts of None \<Rightarrow> 1000 | Some d \<Rightarrow> d)"

definition visibleOf :: "options \<Rightarrow> bool" where
  "visibleOf opts = (case visible opts of None \<Rightarrow> False | Some v \<Rightarrow> v)"

definition waitForSelectorWithRetry ::
  "(nat \<Rightarrow> 'a reply) \<Rightarrow> target \<Rightarrow> string \<Rightarrow> options \<Rightarrow> 'a act" where
  "waitForSelectorWithRetry wfs pageOrFrame selector opts =
     retryLoop wfs pageOrFrame selector
       (timeoutOf opts) (retriesOf opts) (retryDelayOf opts) (visibleOf opts) 0 None"

section \<open>Strings\<close>

text \<open>
  \<open>String.prototype.toLowerCase\<close> on the letters \<open>A\<close> to \<open>Z\<close> (other bytes are kept),
  and \<open>String.prototype.includes\<close>.
\<close>

definition toLowerCaseChar :: "char \<Rightarrow> char" where
  "toLowerCaseChar c =
     (case map_of (zip ''ABCDEFGHIJKLMNOPQRSTUVWXYZ'' ''abcdefghijklmnopqrstuvwxyz'') c of
        None \<Rightarrow> c
      | Some l \<Rightarrow> l)"

definition toLowerCase :: "string \<Rightarrow> string" where
  "toLowerCase s = map toLowerCaseChar s"

fun startsWith :: "string \<Rightarrow> string \<Rightarrow> bool" where
  "startsWith s [] = True"
| "startsWith [] (p # ps) = False"
| "startsWith (c # cs) (p # ps) = (c = p \<and> startsWith cs ps)"

fun includes_str :: "string \<Rightarrow> string \<Rightarrow> bool" where
  "includes_str [] pat = (pat = [])"
| "includes_str (c # cs) pat = (startsWith (c # cs) pat \<or> includes_str cs pat)"

section \<open>The environment of one call of \<open>sendOTP\<close>\<close>

record box =
  box_x :: rat
  box_y :: rat
  box_width :: rat
  box_height :: rat

text \<open>
  What the browser and the process answer during one call, one field for each place of
  \<open>sendOTP\<close> that asks. Browsers, pages and frames are handles (numbers).
  \<open>iframeQuery\<close>, \<open>emailInputQuery\<close> and \<open>phoneInputQuery\<close> tell whether \<open>$\<close> found an
  element (\<open>False\<close> is \<open>null\<close>); \<open>None\<close> in \<open>contentFrame\<close>, \<open>buttonBox\<close> and
  \<open>frameBox\<close> is \<open>null\<close>. \<open>loginButtonWait\<close> is indexed by the attempt.
  \<open>isConnected\<close> and \<open>browserClose\<close> are asked in the \<open>catch\<close> block only.
\<close>

record env =
  launchBrowser :: "(nat \<times> nat reply) option"
  newPage :: "(nat \<times> nat reply) option"
  evaluateOnNewDocument1 :: "unit reply"
  evaluateOnNewDocument2 :: "unit reply"
  setViewport :: "unit reply"
  setExtraHTTPHeaders :: "unit reply"
  setUserAgent :: "(nat \<times> unit reply) option"
  ZOMATO_PARTNERS_URL :: "string option"
  pageGoto :: "(nat \<times> unit reply) option"
  pageUrl :: string
  pageTitle :: "string reply"
  loginButtonWait :: "nat \<Rightarrow> unit reply"
  loginButtonClick :: "unit reply"
  iframeWait :: "unit reply"
  iframeQuery :: "bool reply"
  contentFrame :: "nat option reply"
  loginHeadingWait :: "unit reply"
  continueWithEmailWait :: "unit reply"
  buttonBox :: "box option reply"
  frameBox :: "box option reply"
  mouseClick :: "unit reply"
  emailInputWait :: "unit reply"
  emailInputQuery :: "bool reply"
  emailInputType :: "unit reply"
  phoneInputWait :: "unit reply"
  phoneInputQuery :: "bool reply"
  phoneInputType :: "unit reply"
  sendOtpButtonWait :: "unit reply"
  sendOtpButtonClick :: "unit reply"
  uuidv4 :: string
  isConnected :: bool
  browserClose :: "unit reply"

section \<open>\<open>sendOTP\<close>: the body of the \<open>try\<close> block\<close>

definition userAgent :: string where
  "userAgent = ''Mozilla/5.0 (Windows NT 10.0; Win64; x64) AppleWebKit/537.36 (KHTML, like Gecko) Chrome/120.0.0.0 Safari/537.36''"

definition accessDeniedMessage :: string where
  "accessDeniedMessage = ''Zomato detected automated browser and blocked access. This may be due to bot detection. Please check browser stealth settings.''"

definition loginButtonXPath :: string where
  "loginButtonXPath = ''//button[.//span[text()='Login']]''"

definition loginButtonSelector :: string where
  "loginButtonSelector = ''xpath/'' @ loginButtonXPath"

definition iframeSelector :: string where
  "iframeSelector = ''iframe[src*=\"accounts.zomato.com\"]''"

definition loginHeadingSelector :: string where
  "loginHeadingSelector = ''xpath/ //h2[text()='Login']''"

definition continueWithEmailSelector :: string where
  "continueWithEmailSelector = ''div[aria-label=\"Continue with Email\"]''"

definition emailInputXPath :: string where
  "emailInputXPath = ''//label[text()='Email']/preceding-sibling::section/input[@type='text']''"

definition emailInputSelector :: string where
  "emailInputSelector = ''xpath/'' @ emailInputXPath"

definition phoneInputSelector :: string where
  "phoneInputSelector = ''input[placeholder='Phone']''"

definition sendOtpButtonXPath :: string where
  "sendOtpButtonXPath = ''//button[.//span[text()='Send One Time Password']]''"

definition sendOtpButtonSelector :: string where
  "sendOtpButtonSelector = ''xpath/'' @ sendOtpButtonXPath"

text \<open>\<open>await this._withTimeout(call, timeoutMs, operationName)\<close>: the call is made, and
  its promise races the timer.\<close>

definition timed :: "event \<Rightarrow> (nat \<times> 'a reply) option \<Rightarrow> nat \<Rightarrow> string \<Rightarrow> 'a act" where
  "timed ev r timeoutMs operationName =
     (await (withTimeout (promise_of r) timeoutMs operationName), [ev])"

text \<open>\<open>error.message\<close>, which throws when \<open>error\<close> is \<open>undefined\<close>.\<close>

definition messageOf :: "error \<Rightarrow> string act" where
  "messageOf e =
     (case message e of
        Some m \<Rightarrow> ret m
      | None \<Rightarrow> throw (TypeError ''Cannot read properties of undefined (reading 'message')''))"

text \<open>
  \<open>_makePageStealth\<close> (lines 81--142): four calls in a \<open>try\<close> whose \<open>catch\<close> only logs
  \<open>error.message\<close>.
\<close>

definition makePageStealth :: "env \<Rightarrow> unit act" where
  "makePageStealth env =
     try_catch
       (bnd (call EvaluateOnNewDocument (evaluateOnNewDocument1 env)) (\<lambda>_.
        bnd (call EvaluateOnNewDocument (evaluateOnNewDocument2 env)) (\<lambda>_.
        bnd (call SetViewport (setViewport env)) (\<lambda>_.
        call SetExtraHTTPHeaders (setExtraHTTPHeaders env)))))
       (\<lambda>e. bnd (messageOf e) (\<lambda>_. ret ()))"

text \<open>Lines 216--220: \<open>browser = await this._withTimeout(this.launchBrowser(), 30000,
  'Browser launch')\<close>. The launch options only reach \<open>puppeteer.launch\<close>. A browser
  that arrives after the timer has fired is never assigned to \<open>browser\<close>.\<close>

definition launchStep :: "env \<Rightarrow> nat act" where
  "launchStep env = timed Launch (launchBrowser env) 30000 ''Browser launch''"

text \<open>Lines 222--236: the page, its stealth set-up and its user agent.\<close>

definition openPage :: "env \<Rightarrow> nat act" where
  "openPage env =
     bnd (timed NewPage (newPage env) 10000 ''Page creation'') (\<lambda>pg.
     bnd (makePageStealth env) (\<lambda>_.
     bnd (timed (SetUserAgent userAgent) (setUserAgent env) 5000 ''User agent setup'') (\<lambda>_.
     ret pg)))"

text \<open>Lines 238--254: navigation, the pause of two seconds, \<open>page.url()\<close> and
  \<open>page.title().catch(() => 'Unknown')\<close>.\<close>

definition zomatoPartnersUrl :: "env \<Rightarrow> string" where
  "zomatoPartnersUrl env =
     (case ZOMATO_PARTNERS_URL env of
        None \<Rightarrow> ''https://partner.zomato.com''
      | Some u \<Rightarrow> if u = [] then ''https://partner.zomato.com'' else u)"

definition navigate :: "env \<Rightarrow> (string \<times> string) act" where
  "navigate env =
     bnd (timed (Goto (zomatoPartnersUrl env @ ''/login'')) (pageGoto env) 60000 ''Page navigation'') (\<lambda>_.
     bnd (delay 2000) (\<lambda>_.
     bnd (Resolves (pageUrl env), [Url]) (\<lambda>u.
     bnd (try_catch (call Title (pageTitle env)) (\<lambda>_. ret ''Unknown'')) (\<lambda>t.
     ret (u, t)))))"

text \<open>Lines 256--260: the block page.\<close>

definition accessDenied :: "string \<Rightarrow> bool" where
  "accessDenied pageTitle' =
     (pageTitle' = ''Access Denied'' \<or> includes_str (toLowerCase pageTitle') ''access denied'')"

definition detectBlockPage :: "string \<Rightarrow> unit act" where
  "detectBlockPage pageTitle' =
     (if accessDenied pageTitle' then throw (Error accessDeniedMessage) else ret ())"

text \<open>Lines 262--281: the Login button, waited for with retries, then clicked.\<close>

definition loginButtonOptions :: options where
  "loginButtonOptions =
     \<lparr>timeout = Some 60000, retries = Some 2, retryDelay = Some 2000, visible = Some True\<rparr>"

definition clickLogin :: "env \<Rightarrow> string \<Rightarrow> string \<Rightarrow> unit act" where
  "clickLogin env pageUrl' pageTitle' =
     bnd (try_catch
            (waitForSelectorWithRetry (loginButtonWait env) Page loginButtonSelector loginButtonOptions)
            (\<lambda>e. bnd (messageOf e) (\<lambda>m.
               throw (Error (''Failed to find Login button after navigation. Page URL: '' @ pageUrl'
                             @ '', Page Title: '' @ pageTitle' @ ''. Original error: '' @ m))))) (\<lambda>_.
     call (Click loginButtonSelector) (loginButtonClick env))"

text \<open>Lines 283--288: the iframe of accounts.zomato.com and its content frame.\<close>

definition switchToIframe :: "env \<Rightarrow> nat act" where
  "switchToIframe env =
     bnd (call (WaitForSelector Page iframeSelector 15000 False) (iframeWait env)) (\<lambda>_.
     bnd (call (Query Page iframeSelector) (iframeQuery env)) (\<lambda>frameHandle.
     if \<not> frameHandle then
       throw (TypeError ''Cannot read properties of null (reading 'contentFrame')'')
     else
       bnd (call ContentFrame (contentFrame env)) (\<lambda>fr.
       case fr of
         None \<Rightarrow> throw (Error ''Could not find the login iframe.'')
       | Some f \<Rightarrow> ret f)))"

text \<open>Lines 290--295: the heading and the button \<open>Continue with Email\<close>.\<close>

definition loginForm :: "env \<Rightarrow> unit act" where
  "loginForm env =
     bnd (call (WaitForSelector Frame loginHeadingSelector 10000 False) (loginHeadingWait env)) (\<lambda>_.
     call (WaitForSelector Frame continueWithEmailSelector 15000 True) (continueWithEmailWait env))"

text \<open>Lines 298--320: the branch \<open>type === 'email'\<close>.\<close>

definition emailPath :: "env \<Rightarrow> jsval \<Rightarrow> unit act" where
  "emailPath env identifier =
     bnd (call (BoundingBox continueWithEmailSelector) (buttonBox env)) (\<lambda>boundingBox.
     bnd (case boundingBox of
            Some bb \<Rightarrow>
              bnd (call (BoundingBox iframeSelector) (frameBox env)) (\<lambda>frameBox'.
              case frameBox' of
                None \<Rightarrow> throw (TypeError ''Cannot read properties of null (reading 'x')'')
              | Some fb \<Rightarrow>
                  call (MouseClick (box_x fb + box_x bb + box_width bb / 2)
                                   (box_y fb + box_y bb + box_height bb / 2))
                       (mouseClick env))
          | None \<Rightarrow>
              throw (Error ''Could not get bounding box for \"Continue with Email\" button.'')) (\<lambda>_.
     bnd (delay 1500) (\<lambda>_.
     bnd (call (WaitForSelector Frame emailInputSelector 10000 False) (emailInputWait env)) (\<lambda>_.
     bnd (call (Query Frame emailInputSelector) (emailInputQuery env)) (\<lambda>emailInput.
     if \<not> emailInput then
       throw (TypeError ''Cannot read properties of null (reading 'type')'')
     else
       bnd (call (TypeText emailInputSelector identifier) (emailInputType env)) (\<lambda>_.
       bnd (call (WaitForSelector Frame sendOtpButtonSelector 30000 False) (sendOtpButtonWait env)) (\<lambda>_.
       call (Click sendOtpButtonSelector) (sendOtpButtonClick env))))))))"

text \<open>Lines 321--332: the \<open>else\<close> branch.\<close>

definition phonePath :: "env \<Rightarrow> jsval \<Rightarrow> unit act" where
  "phonePath env identifier =
     bnd (call (WaitForSelector Frame phoneInputSelector 10000 False) (phoneInputWait env)) (\<lambda>_.
     bnd (call (Query Frame phoneInputSelector) (phoneInputQuery env)) (\<lambda>phoneInput.
     if \<not> phoneInput then
       throw (TypeError ''Cannot read properties of null (reading 'type')'')
     else
       bnd (call (TypeText phoneInputSelector identifier) (phoneInputType env)) (\<lambda>_.
       bnd (call (WaitForSelector Frame sendOtpButtonSelector 30000 False) (sendOtpButtonWait env)) (\<lambda>_.
       call (Click sendOtpButtonSelector) (sendOtpButtonClick env)))))"

definition enterIdentifier :: "env \<Rightarrow> jsval \<Rightarrow> jsval \<Rightarrow> unit act" where
  "enterIdentifier env identifier type' =
     (if type' = JStr ''email'' then emailPath env identifier else phonePath env identifier)"

text \<open>Lines 222--332, after the browser is assigned: the page and the frame that the
  session keeps.\<close>

definition body :: "env \<Rightarrow> jsval \<Rightarrow> jsval \<Rightarrow> (nat \<times> nat) act" where
  "body env identifier type' =
     bnd (openPage env) (\<lambda>pg.
     bnd (navigate env) (\<lambda>(pageUrl', pageTitle').
     bnd (detectBlockPage pageTitle') (\<lambda>_.
     bnd (clickLogin env pageUrl' pageTitle') (\<lambda>_.
     bnd (switchToIframe env) (\<lambda>fr.
     bnd (loginForm env) (\<lambda>_.
     bnd (enterIdentifier env identifier type') (\<lambda>_.
     ret (pg, fr))))))))"

section \<open>The session cache, the timers and \<open>sendOTP\<close>\<close>

record sessionData =
  browser :: nat
  page :: nat
  frame :: nat

text \<open>The arrow function given to \<open>setTimeout\<close> (lines 344--353), with the browser and
  the session identifier it closes over.\<close>

datatype callback = Cleanup nat string

text \<open>
  The state of the process: the module-level \<open>sessionCache\<close>, the pending timers with the
  time at which each is due, the clock in milliseconds, the browsers for which
  \<open>isConnected()\<close> holds, and the trace of all calls made so far.
\<close>

record world =
  sessionCache :: "string \<rightharpoonup> sessionData"
  timers :: "(nat \<times> callback) list"
  clock :: nat
  connected :: "nat set"
  trace :: "event list"

definition initial :: world where
  "initial = \<lparr>sessionCache = Map.empty, timers = [], clock = 0, connected = {}, trace = []\<rparr>"

definition emit :: "event list \<Rightarrow> world \<Rightarrow> world" where
  "emit evs w = w\<lparr>trace := trace w @ evs\<rparr>"

text \<open>Lines 334--355: the identifier, the entry, the timer, the result.\<close>

definition cacheSession :: "env \<Rightarrow> nat \<Rightarrow> nat \<Rightarrow> nat \<Rightarrow> world \<Rightarrow> string outcome \<times> world" where
  "cacheSession env b p f w =
     (let sessionId = uuidv4 env;
          sessionData = \<lparr>browser = b, page = p, frame = f\<rparr>
      in (Resolves sessionId,
          w\<lparr>sessionCache := (sessionCache w)(sessionId \<mapsto> sessionData),
            timers := timers w @ [(clock w + 5 * 60 * 1000, Cleanup b sessionId)],
            trace := trace w @ [SessionCacheSet sessionId, SetTimeout (5 * 60 * 1000)]\<rparr>))"

text \<open>Lines 356--367: the \<open>catch\<close> block when \<open>browser\<close> is assigned. A failure of
  \<open>browser.close()\<close> is logged and dropped; the browser then stays as it was.\<close>

definition closeAndRethrow :: "env \<Rightarrow> nat \<Rightarrow> error \<Rightarrow> world \<Rightarrow> string outcome \<times> world" where
  "closeAndRethrow env b e w =
     (if isConnected env then
        (case browserClose env of
           Ok _ \<Rightarrow> (Rejects e, w\<lparr>connected := connected w - {b}, trace := trace w @ [BrowserClose b]\<rparr>)
         | Fails m \<Rightarrow> (Rejects e, w\<lparr>trace := trace w @ [BrowserClose b]\<rparr>))
      else (Rejects e, w\<lparr>connected := connected w - {b}\<rparr>))"

text \<open>
  \<open>async sendOTP(identifier, countryCode, type = 'phone')\<close>. One call is one step of the
  process: callbacks of other sessions, which run between its awaits, touch their own
  entries only and are left out of the step.
\<close>

definition sendOTP :: "env \<Rightarrow> jsval \<Rightarrow> jsval \<Rightarrow> jsval \<Rightarrow> world \<Rightarrow> string outcome \<times> world" where
  "sendOTP env identifier countryCode type_arg w =
     (let type' = (if type_arg = JUndefined then JStr ''phone'' else type_arg) in
      case launchStep env of
        (Resolves b, evs) \<Rightarrow>
          (let w1 = (emit evs w)\<lparr>connected := insert b (connected w)\<rparr> in
           case body env identifier type' of
             (Resolves (p, f), evs') \<Rightarrow> cacheSession env b p f (emit evs' w1)
           | (Rejects e, evs') \<Rightarrow> closeAndRethrow env b e (emit evs' w1)
           | (NeverSettles, evs') \<Rightarrow> (NeverSettles, emit evs' w1))
      | (Rejects e, evs) \<Rightarrow> (Rejects e, emit evs w)
      | (NeverSettles, evs) \<Rightarrow> (NeverSettles, emit evs w))"

text \<open>
  The cleanup callback:
  \<^verbatim>\<open>
  setTimeout(() => {
    try {
      if (browser && browser.isConnected()) {
        browser.close();
        sessionCache.delete(sessionId);
      }
    } catch (e) { }
  }, 5 * 60 * 1000);
  \<close>
  \<open>browser.close()\<close> is not awaited here; the browser is taken to be disconnected by it.
\<close>

fun runCallback :: "callback \<Rightarrow> world \<Rightarrow> world" where
  "runCallback (Cleanup b sessionId) w =
     (if b \<in> connected w then
        w\<lparr>connected := connected w - {b},
          sessionCache := (sessionCache w)(sessionId := None),
          trace := trace w @ [BrowserClose b, SessionCacheDelete sessionId]\<rparr>
      else w)"

text \<open>
  Time passes by \<open>d\<close> milliseconds: the timers that are due by then run, in the order in
  which they were set (every timer of this module has the same delay), and are removed.
\<close>

definition advance :: "nat \<Rightarrow> world \<Rightarrow> world" where
  "advance d w =
     (let now = clock w + d;
          due = filter (\<lambda>(t, cb). t \<le> now) (timers w);
          later = filter (\<lambda>(t, cb). \<not> t \<le> now) (timers w)
      in foldl (\<lambda>w' (t, cb). runCallback cb w') (w\<lparr>clock := now, timers := later\<rparr>) due)"

text \<open>What happens to the process: a call of \<open>sendOTP\<close>, time passing, or a browser that
  loses its connection (it crashes or is killed).\<close>

datatype op = CallSendOTP env jsval jsval jsval | Advance nat | Disconnect nat

fun exec :: "op \<Rightarrow> world \<Rightarrow> world" where
  "exec (CallSendOTP env identifier countryCode type_arg) w =
     snd (sendOTP env identifier countryCode type_arg w)"
| "exec (Advance d) w = advance d w"
| "exec (Disconnect b) w = w\<lparr>connected := connected w - {b}\<rparr>"

definition run :: "op list \<Rightarrow> world \<Rightarrow> world" where
  "run ops w = foldl (\<lambda>w' o'. exec o' w') w ops"

section \<open>The serverless \<open>handler\<close>\<close>

record request =
  httpMethod :: string
  requestBody :: "string option"

datatype responseBody = Text string | JSON_stringify jsval

record response =
  statusCode :: nat
  headers :: "(string \<times> string) list"
  responseBody :: responseBody

definition corsHeaders :: "(string \<times> string) list" where
  "corsHeaders =
     [(''Access-Control-Allow-Origin'', ''*''),
      (''Access-Control-Allow-Methods'', ''POST, OPTIONS''),
      (''Access-Control-Allow-Headers'', ''Content-Type'')]"

text \<open>Property access and truthiness, as far as the handler uses them.\<close>

definition property :: "jsval \<Rightarrow> string \<Rightarrow> jsval" where
  "property v k =
     (case v of
        JObj kvs \<Rightarrow> (case map_of (rev kvs) k of None \<Rightarrow> JUndefined | Some u \<Rightarrow> u)
      | _ \<Rightarrow> JUndefined)"

fun falsy :: "jsval \<Rightarrow> bool" where
  "falsy JUndefined = True"
| "falsy JNull = True"
| "falsy (JBool b) = (\<not> b)"
| "falsy (JNum n) = (n = 0)"
| "falsy (JStr s) = (s = [])"
| "falsy (JArr vs) = False"
| "falsy (JObj kvs) = False"

text \<open>\<open>const { identifier, countryCode, type = 'phone' } = body\<close>.\<close>

definition destructure :: "jsval \<Rightarrow> error + (jsval \<times> jsval \<times> jsval)" where
  "destructure v =
     (if v = JUndefined \<or> v = JNull then
        Inl (TypeError ''Cannot destructure property 'identifier' of 'body' as it is null or undefined.'')
      else
        Inr (property v ''identifier'', property v ''countryCode'',
             (if property v ''type'' = JUndefined then JStr ''phone'' else property v ''type'')))"

text \<open>The \<open>catch\<close> block of the handler (lines 426--439).\<close>

definition errorResponse :: "error \<Rightarrow> world \<Rightarrow> response outcome \<times> world" where
  "errorResponse e w =
     (case message e of
        None \<Rightarrow> (Rejects (TypeError ''Cannot read properties of undefined (reading 'message')''), w)
      | Some m \<Rightarrow>
          (Resolves
             \<lparr>statusCode = (if includes_str m ''detected automated browser'' then 403 else 500),
              headers = corsHeaders,
              responseBody = JSON_stringify
                (JObj [(''success'', JBool False),
                       (''error'', JStr (if m = [] then ''Failed to send OTP'' else m))])\<rparr>,
           w))"

text \<open>
  \<open>exports.handler\<close> (lines 372--440). \<open>JSON.parse\<close> is a parameter. The field
  \<open>body\<close> of a response is \<open>responseBody\<close> here; it is the text itself, or the value
  that \<open>JSON.stringify\<close> is applied to.
\<close>

definition handler ::
  "(string \<Rightarrow> error + jsval) \<Rightarrow> env \<Rightarrow> request \<Rightarrow> world \<Rightarrow> response outcome \<times> world" where
  "handler JSON_parse env ev w =
     (if httpMethod ev = ''OPTIONS'' then
        (Resolves \<lparr>statusCode = 200, headers = corsHeaders, responseBody = Text []\<rparr>, w)
      else if httpMethod ev \<noteq> ''POST'' then
        (Resolves
           \<lparr>statusCode = 405, headers = corsHeaders,
            responseBody = JSON_stringify
              (JObj [(''success'', JBool False), (''error'', JStr ''Method not allowed. Use POST.'')])\<rparr>,
         w)
      else
        (case JSON_parse (case requestBody ev of None \<Rightarrow> ''{}'' | Some s \<Rightarrow> if s = [] then ''{}'' else s) of
           Inl e \<Rightarrow> errorResponse e w
         | Inr parsed \<Rightarrow>
             (case destructure parsed of
                Inl e \<Rightarrow> errorResponse e w
              | Inr (identifier, countryCode, type') \<Rightarrow>
                  if falsy identifier then
                    (Resolves
                       \<lparr>statusCode = 400, headers = corsHeaders,
                        responseBody = JSON_stringify
                          (JObj [(''success'', JBool False), (''error'', JStr ''identifier is required'')])\<rparr>,
                     w)
                  else
                    (case sendOTP env identifier countryCode type' w of
                       (Resolves sessionId, w') \<Rightarrow>
                         (Resolves
                            \<lparr>statusCode = 200, headers = corsHeaders,
                             responseBody = JSON_stringify
                               (JObj [(''success'', JBool True),
                                      (''message'', JStr ''OTP sent successfully''),
                                      (''data'', JObj [(''sessionId'', JStr sessionId)])])\<rparr>,
                          w')
                     | (Rejects e, w') \<Rightarrow> errorResponse e w'
                     | (NeverSettles, w') \<Rightarrow> (NeverSettles, w')))))"

section \<open>Notions used in the statements\<close>

subsection \<open>Attempts of the selector wait\<close>


text \<open>The call of attempt \<open>attempt\<close>, and the trace of the failed attempts \<open>a, \<dots>, k - 1\<close>
  when each is followed by its pause. \<open>failure\<close> is the message of a failed answer.\<close>

definition waitEvent :: "target \<Rightarrow> string \<Rightarrow> rat \<Rightarrow> nat \<Rightarrow> bool \<Rightarrow> nat \<Rightarrow> event" where
  "waitEvent pageOrFrame selector tmo rts vis attempt =
     WaitForSelector pageOrFrame selector (attemptTimeout tmo rts attempt) vis"



subsection \<open>What the environment let happen\<close>

text \<open>
  A raced call resolved within its time limit; the title that \<open>sendOTP\<close> works with
  (\<open>Unknown\<close> when \<open>page.title()\<close> rejected); the browser, the page, the user agent and
  the navigation all succeeded in time; the browser that \<open>launchBrowser\<close> gave in time;
  the three handles that a call obtains when it obtains all of them.
\<close>

definition inTime :: "(nat \<times> 'a reply) option \<Rightarrow> nat \<Rightarrow> bool" where
  "inTime r timeoutMs = (case r of Some (t, Ok v) \<Rightarrow> t \<le> timeoutMs | _ \<Rightarrow> False)"

definition observedTitle :: "env \<Rightarrow> string" where
  "observedTitle env = (case pageTitle env of Ok t \<Rightarrow> t | Fails m \<Rightarrow> ''Unknown'')"

definition navigated :: "env \<Rightarrow> bool" where
  "navigated env = (inTime (launchBrowser env) 30000 \<and> inTime (newPage env) 10000 \<and>
                    inTime (setUserAgent env) 5000 \<and> inTime (pageGoto env) 60000)"

definition launched :: "env \<Rightarrow> nat \<Rightarrow> bool" where
  "launched env b = (\<exists>t. launchBrowser env = Some (t, Ok b) \<and> t \<le> 30000)"

definition producedHandles :: "env \<Rightarrow> sessionData option" where
  "producedHandles env =
     (case launchBrowser env of
        Some (tb, Ok b) \<Rightarrow>
          (case newPage env of
             Some (tp, Ok p) \<Rightarrow>
               (case contentFrame env of
                  Ok (Some f) \<Rightarrow> Some \<lparr>browser = b, page = p, frame = f\<rparr>
                | _ \<Rightarrow> None)
           | _ \<Rightarrow> None)
      | _ \<Rightarrow> None)"

subsection \<open>Steps of the procedure\<close>

text \<open>
  The steps of \<open>sendOTP\<close>, read off the calls: \<open>page.goto\<close> is the navigation,
  \<open>page.title()\<close> the check for the block page, the click on the Login button, the
  content frame of the iframe, typing the identifier into the email or the phone input,
  the click on \<open>Send One Time Password\<close>, and \<open>sessionCache.set\<close>. The other calls
  (waits, queries, pauses) belong to no step of their own.
\<close>

datatype choice = EmailInput | PhoneInput

datatype step =
    Navigate | DetectBlockPage | ClickLogin | SwitchToIframe | ChoosePath choice
  | SubmitOtpRequest | CacheSession

fun step_of :: "event \<Rightarrow> step option" where
  "step_of (Goto u) = Some Navigate"
| "step_of Title = Some DetectBlockPage"
| "step_of (Click s) =
     (if s = loginButtonSelector then Some ClickLogin
      else if s = sendOtpButtonSelector then Some SubmitOtpRequest else None)"
| "step_of ContentFrame = Some SwitchToIframe"
| "step_of (TypeText s v) =
     (if s = emailInputSelector then Some (ChoosePath EmailInput)
      else if s = phoneInputSelector then Some (ChoosePath PhoneInput) else None)"
| "step_of (SessionCacheSet k) = Some CacheSession"
| "step_of _ = None"

fun steps :: "event list \<Rightarrow> step list" where
  "steps [] = []"
| "steps (ev # evs) = (case step_of ev of None \<Rightarrow> steps evs | Some s \<Rightarrow> s # steps evs)"

text \<open>The value of the parameter \<open>type = 'phone'\<close>, the input it selects, and the order of
  the steps: of the \<open>try\<close> body, and of the whole procedure.\<close>

definition typeOrDefault :: "jsval \<Rightarrow> jsval" where
  "typeOrDefault type_arg = (if type_arg = JUndefined then JStr ''phone'' else type_arg)"




text \<open>The calls made between two states of the process.\<close>

definition calls :: "world \<Rightarrow> world \<Rightarrow> event list" where
  "calls w w' = drop (length (trace w)) (trace w')"




subsection \<open>Outcomes of pieces of the procedure\<close>

text \<open>
  A piece settles, and when it rejects, the error has a message and is not the
  access-denied error; a piece resolves; two pieces in a row when the second does not use
  the value of the first; and the \<open>try\<close> body as such a row: its calls do not depend on
  the values passed along.
\<close>

definition plain :: "'a act \<Rightarrow> bool" where
  "plain a = (fst a \<noteq> NeverSettles \<and>
              (\<forall>e. fst a = Rejects e \<longrightarrow> message e \<noteq> None \<and> e \<noteq> Error accessDeniedMessage))"

definition resolved :: "'a act \<Rightarrow> bool" where
  "resolved a = (\<exists>v. fst a = Resolves v)"

definition seq :: "'a act \<Rightarrow> 'b act \<Rightarrow> 'b act" where
  "seq a b = bnd a (\<lambda>_. b)"

definition bodyChain :: "env \<Rightarrow> jsval \<Rightarrow> jsval \<Rightarrow> unit act" where
  "bodyChain env identifier type' =
     seq (openPage env)
    (seq (navigate env)
    (seq (detectBlockPage (observedTitle env))
    (seq (clickLogin env (pageUrl env) (observedTitle env))
    (seq (switchToIframe env)
    (seq (loginForm env)
         (enterIdentifier env identifier type'))))))"

subsection \<open>Sample environments\<close>

text \<open>
  An environment in which every call succeeds, the identifier it generates, and the calls
  that \<open>sendOTP\<close> then makes on the phone and on the email path, before
  \<open>sessionCache.set\<close>.
\<close>

definition okEnv :: env where
  "okEnv =
     \<lparr>launchBrowser = Some (1200, Ok 1),
      newPage = Some (300, Ok 2),
      evaluateOnNewDocument1 = Ok (),
      evaluateOnNewDocument2 = Ok (),
      setViewport = Ok (),
      setExtraHTTPHeaders = Ok (),
      setUserAgent = Some (5, Ok ()),
      ZOMATO_PARTNERS_URL = None,
      pageGoto = Some (4000, Ok ()),
      pageUrl = ''https://partner.zomato.com/login'',
      pageTitle = Ok ''Zomato Partner'',
      loginButtonWait = (\<lambda>attempt. Ok ()),
      loginButtonClick = Ok (),
      iframeWait = Ok (),
      iframeQuery = Ok True,
      contentFrame = Ok (Some 3),
      loginHeadingWait = Ok (),
      continueWithEmailWait = Ok (),
      buttonBox = Ok (Some \<lparr>box_x = 40, box_y = 300, box_width = 200, box_height = 48\<rparr>),
      frameBox = Ok (Some \<lparr>box_x = 600, box_y = 100, box_width = 400, box_height = 600\<rparr>),
      mouseClick = Ok (),
      emailInputWait = Ok (),
      emailInputQuery = Ok True,
      emailInputType = Ok (),
      phoneInputWait = Ok (),
      phoneInputQuery = Ok True,
      phoneInputType = Ok (),
      sendOtpButtonWait = Ok (),
      sendOtpButtonClick = Ok (),
      uuidv4 = ''3b241101-e2bb-4255-8caf-4136c566a962'',
      isConnected = True,
      browserClose = Ok ()\<rparr>"

definition sampleId :: string where
  "sampleId = ''3b241101-e2bb-4255-8caf-4136c566a962''"

definition phoneCalls :: "jsval \<Rightarrow> event list" where
  "phoneCalls identifier =
     [Launch, NewPage, EvaluateOnNewDocument, EvaluateOnNewDocument, SetViewport,
      SetExtraHTTPHeaders, SetUserAgent userAgent, Goto ''https://partner.zomato.com/login'',
      Delay 2000, Url, Title,
      WaitForSelector Page loginButtonSelector 60000 True, Click loginButtonSelector,
      WaitForSelector Page iframeSelector 15000 False, Query Page iframeSelector, ContentFrame,
      WaitForSelector Frame loginHeadingSelector 10000 False,
      WaitForSelector Frame continueWithEmailSelector 15000 True,
      WaitForSelector Frame phoneInputSelector 10000 False, Query Frame phoneInputSelector,
      TypeText phoneInputSelector identifier,
      WaitForSelector Frame sendOtpButtonSelector 30000 False, Click sendOtpButtonSelector]"


text \<open>
  The site answers with its block page; the navigation fails and \<open>browser.close()\<close>
  fails too; the navigation fails with an error whose message is empty.
\<close>

definition blockedEnv :: env where
  "blockedEnv = okEnv\<lparr>pageTitle := Ok ''ACCESS DENIED | Zomato''\<rparr>"

definition stuckEnv :: env where
  "stuckEnv = okEnv\<lparr>pageGoto := Some (800, Fails ''net::ERR_NAME_NOT_RESOLVED''),
                     browserClose := Fails ''Protocol error (Browser.close): Target closed''\<rparr>"

definition emptyMessageEnv :: env where
  "emptyMessageEnv = okEnv\<lparr>pageGoto := Some (800, Fails [])\<rparr>"

text \<open>A request with the body of the quick-start guide, and a parser that knows this body.\<close>

definition sampleBody :: string where
  "sampleBody = ''{\"identifier\":\"9014884219\",\"countryCode\":\"1\",\"type\":\"phone\"}''"

definition sampleRequest :: request where
  "sampleRequest = \<lparr>httpMethod = ''POST'', requestBody = Some sampleBody\<rparr>"

definition sampleParse :: "string \<Rightarrow> error + jsval" where
  "sampleParse s =
     (if s = sampleBody then
        Inr (JObj [(''identifier'', JStr ''9014884219''), (''countryCode'', JStr ''1''),
                   (''type'', JStr ''phone'')])
      else Inl (SyntaxError ''Unexpected token''))"

section \<open>The timeout race\<close>




section \<open>The selector wait with retries\<close>








lemma retryLoop_found:
  "k \<le> rts \<Longrightarrow> wfs k = Ok el \<Longrightarrow>
   retryLoop wfs pf sel tmo rts dly vis k le = (Resolves el, [waitEvent pf sel tmo rts vis k])"
  by (subst retryLoop.simps) (simp add: waitEvent_def)














section \<open>Sequencing of awaited calls\<close>

lemma steps_append: "steps (xs @ ys) = steps xs @ steps ys"
  by (induction xs) (auto split: option.splits)

lemma fst_bnd:
  "fst (bnd a f) = (case fst a of Resolves x \<Rightarrow> fst (f x) | Rejects e \<Rightarrow> Rejects e | NeverSettles \<Rightarrow> NeverSettles)"
  by (simp add: bnd_def after_def split: outcome.splits)

lemma snd_bnd:
  "snd (bnd a f) = snd a @ (case fst a of Resolves x \<Rightarrow> snd (f x) | _ \<Rightarrow> [])"
  by (simp add: bnd_def after_def split: outcome.splits)

lemma fst_try_catch:
  "fst (try_catch a h) = (case fst a of Rejects e \<Rightarrow> fst (h e) | r \<Rightarrow> r)"
  by (simp add: try_catch_def after_def split: outcome.splits)

lemma snd_try_catch:
  "snd (try_catch a h) = snd a @ (case fst a of Rejects e \<Rightarrow> snd (h e) | _ \<Rightarrow> [])"
  by (simp add: try_catch_def after_def split: outcome.splits)

lemma call_simps: "fst (call ev r) = await_reply r" "snd (call ev r) = [ev]"
  by (simp_all add: call_def)

lemma ret_simps: "fst (ret x) = Resolves x" "snd (ret x) = []"
  by (simp_all add: ret_def)

lemma throw_simps: "fst (throw e) = Rejects e" "snd (throw e) = []"
  by (simp_all add: throw_def)

lemma delay_simps: "fst (delay d) = Resolves ()" "snd (delay d) = [Delay d]"
  by (simp_all add: delay_def)

lemma withTimeout_cases:
  "withTimeout (promise_of r) timeoutMs operationName =
     (case r of
        None \<Rightarrow> timeoutPromise timeoutMs operationName
      | Some (t, rep) \<Rightarrow> if t \<le> timeoutMs then promise_of r else timeoutPromise timeoutMs operationName)"
  by (cases r; cases "snd (the r)")
     (auto simp: withTimeout_def earlier_def timeoutPromise_def split: prod.splits)

lemma fst_timed:
  "fst (timed ev r timeoutMs operationName) =
     (case r of
        Some (t, Ok v) \<Rightarrow> if t \<le> timeoutMs then Resolves v
                          else Rejects (Error (operationName @ '' timed out after '' @ Number_toString timeoutMs @ ''ms''))
      | Some (t, Fails m) \<Rightarrow> if t \<le> timeoutMs then Rejects (LibraryError m)
                          else Rejects (Error (operationName @ '' timed out after '' @ Number_toString timeoutMs @ ''ms''))
      | None \<Rightarrow> Rejects (Error (operationName @ '' timed out after '' @ Number_toString timeoutMs @ ''ms'')))"
  by (auto simp: timed_def withTimeout_cases timeoutPromise_def split: option.splits prod.splits reply.splits)

lemma snd_timed: "snd (timed ev r timeoutMs operationName) = [ev]"
  by (simp add: timed_def)

lemma timed_Resolves:
  "fst (timed ev r timeoutMs operationName) = Resolves v \<longleftrightarrow> (\<exists>t. r = Some (t, Ok v) \<and> t \<le> timeoutMs)"
  by (auto simp: fst_timed split: option.splits prod.splits reply.splits if_splits)

section \<open>The pieces of the \<open>try\<close> body\<close>

lemma plain_bnd: "plain a \<Longrightarrow> (\<And>x. plain (f x)) \<Longrightarrow> plain (bnd a f)"
  by (auto simp: plain_def fst_bnd split: outcome.splits)

lemma plain_call: "plain (call ev r)"
  by (cases r) (auto simp: plain_def call_simps)

lemma plain_ret: "plain (ret x)"
  by (simp add: plain_def ret_simps)

lemma plain_delay: "plain (delay d)"
  by (simp add: plain_def delay_simps)

lemma plain_throw: "message e \<noteq> None \<Longrightarrow> e \<noteq> Error accessDeniedMessage \<Longrightarrow> plain (throw e)"
  by (simp add: plain_def throw_simps)

lemma plain_try_catch: "fst a \<noteq> NeverSettles \<Longrightarrow> (\<And>e. plain (h e)) \<Longrightarrow> plain (try_catch a h)"
  by (auto simp: plain_def fst_try_catch split: outcome.splits)

lemma plain_timed:
  "hd operationName \<noteq> CHR ''Z'' \<Longrightarrow> operationName \<noteq> [] \<Longrightarrow> plain (timed ev r timeoutMs operationName)"
  by (cases operationName)
     (auto simp: plain_def fst_timed accessDeniedMessage_def split: option.splits prod.splits reply.splits if_splits)

lemma plain_sync: "plain (Resolves v, evs)"
  by (simp add: plain_def)

lemma plain_messageOf_then: "(\<And>m. plain (f m)) \<Longrightarrow> plain (bnd (messageOf e) f)"
  by (cases e) (auto simp: messageOf_def plain_def fst_bnd ret_simps throw_simps accessDeniedMessage_def)

lemma retryLoop_settles: "fst (retryLoop wfs pf sel tmo rts dly vis a le) \<noteq> NeverSettles"
proof (induction wfs pf sel tmo rts dly vis a le rule: retryLoop.induct)
  case (1 wfs pf sel tmo rts dly vis a le)
  show ?case
    using 1 by (subst retryLoop.simps) (auto simp: after_def throw_def split: reply.splits)
qed

lemma makePageStealth_Resolves: "fst (makePageStealth env) = Resolves ()"
  by (cases "evaluateOnNewDocument1 env"; cases "evaluateOnNewDocument2 env";
      cases "setViewport env"; cases "setExtraHTTPHeaders env")
     (simp_all add: makePageStealth_def fst_try_catch fst_bnd call_simps messageOf_def ret_simps)

lemma makePageStealth_steps: "steps (snd (makePageStealth env)) = []"
  by (cases "evaluateOnNewDocument1 env"; cases "evaluateOnNewDocument2 env";
      cases "setViewport env"; cases "setExtraHTTPHeaders env")
     (simp_all add: makePageStealth_def snd_try_catch fst_bnd snd_bnd call_simps messageOf_def ret_simps)

lemma openPage_plain: "plain (openPage env)"
  unfolding openPage_def
  by (intro plain_bnd plain_timed plain_ret) (simp_all add: plain_def makePageStealth_Resolves)

lemma openPage_Resolves:
  "fst (openPage env) = Resolves pg \<longleftrightarrow>
     (\<exists>t. newPage env = Some (t, Ok pg) \<and> t \<le> 10000) \<and> inTime (setUserAgent env) 5000"
  by (auto simp: openPage_def fst_bnd makePageStealth_Resolves fst_timed ret_simps inTime_def
           split: outcome.splits option.splits reply.splits if_splits)

lemma openPage_steps: "steps (snd (openPage env)) = []"
  by (simp add: openPage_def snd_bnd steps_append snd_timed makePageStealth_steps ret_simps
           split: outcome.splits)

lemma navigate_plain: "plain (navigate env)"
  unfolding navigate_def
  by (intro plain_bnd plain_timed plain_ret plain_delay plain_sync plain_try_catch)
     (simp_all add: call_simps, cases "pageTitle env", simp_all)

lemma navigate_Resolves:
  "fst (navigate env) = Resolves (u, t) \<longleftrightarrow>
     inTime (pageGoto env) 60000 \<and> u = pageUrl env \<and> t = observedTitle env"
  by (cases "pageTitle env")
     (auto simp: navigate_def fst_bnd fst_timed ret_simps delay_simps inTime_def fst_try_catch
              call_simps observedTitle_def
           split: outcome.splits option.splits reply.splits if_splits)

lemma navigate_steps:
  "steps (snd (navigate env)) =
     (if inTime (pageGoto env) 60000 then [Navigate, DetectBlockPage] else [Navigate])"
  by (cases "pageTitle env")
     (auto simp: navigate_def fst_bnd snd_bnd snd_timed fst_timed ret_simps delay_simps inTime_def
              fst_try_catch snd_try_catch call_simps steps_append
           split: outcome.splits option.splits reply.splits)






declare step_of.simps(3) [simp del] step_of.simps(5) [simp del]

lemma detectBlockPage_fst:
  "fst (detectBlockPage t) = (if accessDenied t then Rejects (Error accessDeniedMessage) else Resolves ())"
  by (simp add: detectBlockPage_def throw_simps ret_simps)

lemma detectBlockPage_snd: "snd (detectBlockPage t) = []"
  by (simp add: detectBlockPage_def throw_simps ret_simps)



lemma clickLogin_plain: "plain (clickLogin env u t)"
  unfolding clickLogin_def
  by (intro plain_bnd plain_try_catch plain_messageOf_then plain_throw plain_call)
     (simp_all add: waitForSelectorWithRetry_def retryLoop_settles accessDeniedMessage_def)



lemma switchToIframe_plain: "plain (switchToIframe env)"
  unfolding switchToIframe_def
  by (intro plain_bnd plain_call)
     (auto intro!: plain_bnd plain_call plain_throw plain_ret simp: accessDeniedMessage_def
           split: option.splits)

lemma switchToIframe_Resolves:
  "fst (switchToIframe env) = Resolves f \<Longrightarrow> contentFrame env = Ok (Some f)"
  by (cases "iframeWait env"; cases "iframeQuery env"; cases "contentFrame env")
     (auto simp: switchToIframe_def fst_bnd call_simps throw_simps ret_simps
           split: outcome.splits option.splits if_splits)


lemma loginForm_plain: "plain (loginForm env)"
  unfolding loginForm_def by (intro plain_bnd plain_call)


lemma phonePath_plain: "plain (phonePath env i)"
  unfolding phonePath_def
  by (intro plain_bnd plain_call)
     (auto intro!: plain_bnd plain_call plain_throw simp: accessDeniedMessage_def)

lemma emailPath_plain: "plain (emailPath env i)"
  unfolding emailPath_def
  by (intro plain_bnd plain_call plain_delay)
     (auto intro!: plain_bnd plain_call plain_throw simp: accessDeniedMessage_def split: option.splits)





section \<open>The order of the steps in the \<open>try\<close> body\<close>

lemma snd_seq: "snd (seq a b) = snd a @ (if resolved a then snd b else [])"
  by (auto simp: seq_def snd_bnd resolved_def split: outcome.splits)

lemma resolved_seq: "resolved (seq a b) = (resolved a \<and> resolved b)"
  by (auto simp: seq_def fst_bnd resolved_def split: outcome.splits)

lemma body_chain:
  "snd (body env i ty) = snd (bodyChain env i ty) \<and>
   resolved (body env i ty) = resolved (bodyChain env i ty)"
  by (auto simp: body_def bodyChain_def seq_def fst_bnd snd_bnd resolved_def ret_simps navigate_Resolves
           split: outcome.splits prod.splits if_splits)


lemma enterIdentifier_plain: "plain (enterIdentifier env i ty)"
  by (simp add: enterIdentifier_def emailPath_plain phonePath_plain)


lemma navigate_resolved: "resolved (navigate env) = inTime (pageGoto env) 60000"
  using navigate_Resolves [of env] by (auto simp: resolved_def)

lemma detect_resolved: "resolved (detectBlockPage t) = (\<not> accessDenied t)"
  by (simp add: resolved_def detectBlockPage_fst)


section \<open>The three ways through \<open>sendOTP\<close>\<close>

lemma launchStep_plain: "plain (launchStep env)"
  unfolding launchStep_def by (rule plain_timed) simp_all

lemma launchStep_snd: "snd (launchStep env) = [Launch]"
  by (simp add: launchStep_def snd_timed)

lemma launchStep_Resolves: "fst (launchStep env) = Resolves b \<longleftrightarrow> launched env b"
  by (simp add: launchStep_def timed_Resolves launched_def)

lemma body_fst:
  "fst (body env i ty) \<noteq> NeverSettles \<and>
   (\<forall>e. fst (body env i ty) = Rejects e \<longrightarrow> message e \<noteq> None) \<and>
   (fst (body env i ty) = Rejects (Error accessDeniedMessage) \<longleftrightarrow>
      inTime (newPage env) 10000 \<and> inTime (setUserAgent env) 5000 \<and> inTime (pageGoto env) 60000 \<and>
      accessDenied (observedTitle env))"
proof -
  note p = openPage_plain [of env, unfolded plain_def] navigate_plain [of env, unfolded plain_def]
    clickLogin_plain [of env "pageUrl env" "observedTitle env", unfolded plain_def]
    switchToIframe_plain [of env, unfolded plain_def] loginForm_plain [of env, unfolded plain_def]
    enterIdentifier_plain [of env i ty, unfolded plain_def]
  have o: "(\<exists>pg. fst (openPage env) = Resolves pg) = (inTime (newPage env) 10000 \<and> inTime (setUserAgent env) 5000)"
    by (auto simp: openPage_Resolves inTime_def split: option.splits reply.splits)
  have n: "inTime (pageGoto env) 60000 \<Longrightarrow> fst (navigate env) = Resolves (pageUrl env, observedTitle env)"
    by (simp add: navigate_Resolves)
  have n': "\<not> inTime (pageGoto env) 60000 \<Longrightarrow> fst (navigate env) \<noteq> Resolves v" for v
    by (cases v) (simp add: navigate_Resolves)
  show ?thesis
  proof (cases "inTime (pageGoto env) 60000")
    case True
    with p o n [OF True] show ?thesis
      by (auto simp: body_def fst_bnd ret_simps detectBlockPage_fst
               split: outcome.splits prod.splits if_splits)
  next
    case False
    with p o n' [OF False] show ?thesis
      by (auto simp: body_def fst_bnd ret_simps detectBlockPage_fst
               split: outcome.splits prod.splits if_splits)
  qed
qed

lemma body_Resolves:
  "fst (body env i ty) = Resolves (p, f) \<Longrightarrow>
     (\<exists>t. newPage env = Some (t, Ok p) \<and> t \<le> 10000) \<and> contentFrame env = Ok (Some f)"
  using switchToIframe_Resolves [of env f]
  by (auto simp: body_def fst_bnd ret_simps openPage_Resolves split: outcome.splits prod.splits)

lemma sendOTP_cases:
  obtains
    (launchFailed) e where "fst (launchStep env) = Rejects e" "message e \<noteq> None" "e \<noteq> Error accessDeniedMessage"
      "\<not> (\<exists>b. launched env b)"
      "sendOTP env i c t w = (Rejects e, emit [Launch] w)"
  | (bodyFailed) b e where "launched env b"
      "fst (body env i (typeOrDefault t)) = Rejects e"
      "sendOTP env i c t w =
         closeAndRethrow env b e
           ((emit (Launch # snd (body env i (typeOrDefault t))) w)\<lparr>connected := insert b (connected w)\<rparr>)"
  | (success) b p f where "launched env b"
      "fst (body env i (typeOrDefault t)) = Resolves (p, f)"
      "sendOTP env i c t w =
         cacheSession env b p f
           ((emit (Launch # snd (body env i (typeOrDefault t))) w)\<lparr>connected := insert b (connected w)\<rparr>)"
proof (cases "fst (launchStep env)")
  case (Resolves b)
  then have l: "launched env b" by (simp add: launchStep_Resolves)
  have ls: "launchStep env = (Resolves b, [Launch])"
    using Resolves launchStep_snd [of env] by (cases "launchStep env") simp
  show ?thesis
  proof (cases "fst (body env i (typeOrDefault t))")
    case (Resolves pf)
    obtain p f where pf: "pf = (p, f)" by (cases pf)
    have "sendOTP env i c t w =
         cacheSession env b p f
           ((emit (Launch # snd (body env i (typeOrDefault t))) w)\<lparr>connected := insert b (connected w)\<rparr>)"
      using Resolves pf ls
      by (cases "body env i (typeOrDefault t)"; cases w) (simp add: sendOTP_def typeOrDefault_def emit_def)
    with l Resolves pf show ?thesis by (intro success) auto
  next
    case (Rejects e)
    have "sendOTP env i c t w =
         closeAndRethrow env b e
           ((emit (Launch # snd (body env i (typeOrDefault t))) w)\<lparr>connected := insert b (connected w)\<rparr>)"
      using Rejects ls
      by (cases "body env i (typeOrDefault t)"; cases w) (simp add: sendOTP_def typeOrDefault_def emit_def)
    with l Rejects show ?thesis by (intro bodyFailed) auto
  next
    case NeverSettles
    with body_fst [of env i "typeOrDefault t"] show ?thesis by simp
  qed
next
  case (Rejects e)
  have ls: "launchStep env = (Rejects e, [Launch])"
    using Rejects launchStep_snd [of env] by (cases "launchStep env") simp
  have "sendOTP env i c t w = (Rejects e, emit [Launch] w)"
    using ls by (simp add: sendOTP_def)
  moreover have "message e \<noteq> None" "e \<noteq> Error accessDeniedMessage"
    using launchStep_plain [of env] Rejects by (auto simp: plain_def)
  moreover have "\<not> (\<exists>b. launched env b)"
    using Rejects launchStep_Resolves [of env] by auto
  ultimately show ?thesis using Rejects by (intro launchFailed) auto
next
  case NeverSettles
  with launchStep_plain [of env] show ?thesis by (simp add: plain_def)
qed

lemma sendOTP_settles: "fst (sendOTP env identifier countryCode type_arg w) \<noteq> NeverSettles"
proof (cases rule: sendOTP_cases [where env = env and i = "identifier" and c = countryCode
                                      and t = type_arg and w = w])
  case (launchFailed e)
  then show ?thesis by simp
next
  case (bodyFailed b e)
  then show ?thesis
    by (cases "browserClose env") (simp_all add: closeAndRethrow_def)
next
  case (success b p f)
  then show ?thesis by (simp add: cacheSession_def Let_def)
qed

section \<open>Runs in the sample environments\<close>

lemma calls_append: "trace w' = trace w @ evs \<Longrightarrow> calls w w' = evs"
  by (simp add: calls_def)

lemma okEnv_login:
  "waitForSelectorWithRetry (loginButtonWait okEnv) Page loginButtonSelector loginButtonOptions =
     (Resolves (), [WaitForSelector Page loginButtonSelector 60000 True])"
  by (simp add: waitForSelectorWithRetry_def retryLoop_found okEnv_def waitEvent_def
        attemptTimeout_def loginButtonOptions_def timeoutOf_def visibleOf_def)

lemma act_eval:
  "bnd (Resolves v, evs) f = after evs (f v)"
  "bnd (Rejects e, evs) f = (Rejects e, evs)"
  "try_catch (Resolves v, evs) h = (Resolves v, evs)"
  "try_catch (Rejects e, evs) h = after evs (h e)"
  "after evs (r, evs') = (r, evs @ evs')"
  by (simp_all add: bnd_def try_catch_def after_def)

lemma timed_eval:
  "t \<le> timeoutMs \<Longrightarrow> timed ev (Some (t, Ok v)) timeoutMs operationName = (Resolves v, [ev])"
  "t \<le> timeoutMs \<Longrightarrow> timed ev (Some (t, Fails m)) timeoutMs operationName = (Rejects (LibraryError m), [ev])"
  "timed ev None timeoutMs operationName =
     (Rejects (Error (operationName @ '' timed out after '' @ Number_toString timeoutMs @ ''ms'')), [ev])"
  by (simp_all add: timed_def withTimeout_def earlier_def timeoutPromise_def)

lemma okEnv_body_phone:
  "ty \<noteq> JStr ''email'' \<Longrightarrow> body okEnv identifier ty = (Resolves (2, 3), tl (phoneCalls identifier))"
  by (simp add: body_def openPage_def makePageStealth_def navigate_def detectBlockPage_def
        clickLogin_def switchToIframe_def loginForm_def enterIdentifier_def phonePath_def
        okEnv_login act_eval timed_eval call_def ret_def delay_def zomatoPartnersUrl_def
        accessDenied_def toLowerCase_def toLowerCaseChar_def phoneCalls_def)
     (simp add: okEnv_def act_eval timed_eval call_def ret_def delay_def zomatoPartnersUrl_def
        accessDenied_def toLowerCase_def toLowerCaseChar_def)

section \<open>When \<open>sendOTP\<close> throws\<close>

lemma closeAndRethrow_facts:
  "closeAndRethrow env b e w1 = (r, w') \<Longrightarrow>
     r = Rejects e \<and> sessionCache w' = sessionCache w1 \<and> timers w' = timers w1 \<and>
     clock w' = clock w1 \<and>
     trace w' = trace w1 @ (if isConnected env then [BrowserClose b] else []) \<and>
     (isConnected env \<and> browserClose env = Ok () \<longrightarrow> b \<notin> connected w') \<and>
     (isConnected env \<and> browserClose env \<noteq> Ok () \<longrightarrow> connected w' = connected w1)"
  by (cases "browserClose env") (auto simp: closeAndRethrow_def split: if_splits)

lemma cacheSession_facts:
  "cacheSession env b p f w1 = (r, w') \<Longrightarrow>
     r = Resolves (uuidv4 env) \<and>
     sessionCache w' = (sessionCache w1)(uuidv4 env \<mapsto> \<lparr>browser = b, page = p, frame = f\<rparr>) \<and>
     timers w' = timers w1 @ [(clock w1 + 5 * 60 * 1000, Cleanup b (uuidv4 env))] \<and>
     clock w' = clock w1 \<and> connected w' = connected w1 \<and>
     trace w' = trace w1 @ [SessionCacheSet (uuidv4 env), SetTimeout (5 * 60 * 1000)]"
  by (auto simp: cacheSession_def Let_def)


lemma blockedEnv_body:
  "body blockedEnv identifier ty =
     (Rejects (Error accessDeniedMessage),
      [NewPage, EvaluateOnNewDocument, EvaluateOnNewDocument, SetViewport, SetExtraHTTPHeaders,
       SetUserAgent userAgent, Goto ''https://partner.zomato.com/login'', Delay 2000, Url, Title])"
  by (simp add: body_def openPage_def makePageStealth_def navigate_def detectBlockPage_def
        act_eval timed_eval call_def ret_def delay_def zomatoPartnersUrl_def throw_def
        accessDenied_def toLowerCase_def toLowerCaseChar_def blockedEnv_def okEnv_def)

lemma stuckEnv_body:
  "body stuckEnv identifier ty =
     (Rejects (LibraryError ''net::ERR_NAME_NOT_RESOLVED''),
      [NewPage, EvaluateOnNewDocument, EvaluateOnNewDocument, SetViewport, SetExtraHTTPHeaders,
       SetUserAgent userAgent, Goto ''https://partner.zomato.com/login''])"
  by (simp add: body_def openPage_def makePageStealth_def navigate_def
        act_eval timed_eval call_def ret_def delay_def zomatoPartnersUrl_def throw_def
        stuckEnv_def okEnv_def)

lemma launchStep_okEnv:
  "launchStep okEnv = (Resolves 1, [Launch])" "launchStep blockedEnv = (Resolves 1, [Launch])"
  "launchStep stuckEnv = (Resolves 1, [Launch])"
  by (simp_all add: launchStep_def timed_eval okEnv_def blockedEnv_def stuckEnv_def)

lemma sendOTP_blockedEnv:
  "sendOTP blockedEnv identifier countryCode type_arg initial =
     (Rejects (Error accessDeniedMessage),
      \<lparr>sessionCache = Map.empty, timers = [], clock = 0, connected = {},
       trace = [Launch, NewPage, EvaluateOnNewDocument, EvaluateOnNewDocument, SetViewport,
                SetExtraHTTPHeaders, SetUserAgent userAgent,
                Goto ''https://partner.zomato.com/login'', Delay 2000, Url, Title,
                BrowserClose 1]\<rparr>)"
  by (simp add: sendOTP_def launchStep_okEnv blockedEnv_body closeAndRethrow_def emit_def initial_def)
     (simp add: blockedEnv_def okEnv_def)

lemma sendOTP_stuckEnv:
  "sendOTP stuckEnv identifier countryCode type_arg initial =
     (Rejects (LibraryError ''net::ERR_NAME_NOT_RESOLVED''),
      \<lparr>sessionCache = Map.empty, timers = [], clock = 0, connected = {1},
       trace = [Launch, NewPage, EvaluateOnNewDocument, EvaluateOnNewDocument, SetViewport,
                SetExtraHTTPHeaders, SetUserAgent userAgent,
                Goto ''https://partner.zomato.com/login'', BrowserClose 1]\<rparr>)"
  by (simp add: sendOTP_def launchStep_okEnv stuckEnv_body closeAndRethrow_def emit_def initial_def)
     (simp add: stuckEnv_def okEnv_def)



section \<open>The block page\<close>

lemma startsWith_iff: "startsWith s pat \<longleftrightarrow> (\<exists>rest. s = pat @ rest)"
  by (induction s pat rule: startsWith.induct) auto

lemma includes_str_iff: "includes_str s pat \<longleftrightarrow> (\<exists>before rest. s = before @ pat @ rest)"
proof (induction s)
  case Nil
  then show ?case by auto
next
  case (Cons c cs)
  show ?case
  proof
    assume "includes_str (c # cs) pat"
    then consider "startsWith (c # cs) pat" | "includes_str cs pat" by auto
    then show "\<exists>before rest. c # cs = before @ pat @ rest"
    proof cases
      case 1
      then obtain rest where "c # cs = pat @ rest" by (auto simp: startsWith_iff)
      then have "c # cs = [] @ pat @ rest" by simp
      then show ?thesis by blast
    next
      case 2
      then obtain before rest where "cs = before @ pat @ rest" using Cons.IH by auto
      then have "c # cs = (c # before) @ pat @ rest" by simp
      then show ?thesis by blast
    qed
  next
    assume "\<exists>before rest. c # cs = before @ pat @ rest"
    then obtain before rest where e: "c # cs = before @ pat @ rest" by auto
    show "includes_str (c # cs) pat"
    proof (cases before)
      case Nil
      with e have "startsWith (c # cs) pat" by (auto simp: startsWith_iff)
      then show ?thesis by simp
    next
      case (Cons b bs)
      with e have "cs = bs @ pat @ rest" by simp
      then have "includes_str cs pat" using Cons.IH by auto
      then show ?thesis by simp
    qed
  qed
qed

lemma accessDenied_iff:
  "accessDenied t \<longleftrightarrow> (\<exists>before rest. toLowerCase t = before @ ''access denied'' @ rest)"
proof -
  have "toLowerCase ''Access Denied'' = [] @ ''access denied'' @ []"
    by (simp add: toLowerCase_def toLowerCaseChar_def)
  then have "t = ''Access Denied'' \<Longrightarrow> \<exists>before rest. toLowerCase t = before @ ''access denied'' @ rest"
    by blast
  then show ?thesis
    unfolding accessDenied_def includes_str_iff by blast
qed

lemma body_accessDenied_steps:
  assumes "fst (body env i ty) = Rejects (Error accessDeniedMessage)"
  shows "steps (snd (body env i ty)) = [Navigate, DetectBlockPage]"
proof -
  from assms body_fst [of env i ty]
  have a: "inTime (newPage env) 10000" "inTime (setUserAgent env) 5000"
    "inTime (pageGoto env) 60000" "accessDenied (observedTitle env)"
    by auto
  have "resolved (openPage env) = (inTime (newPage env) 10000 \<and> inTime (setUserAgent env) 5000)"
    by (auto simp: resolved_def openPage_Resolves inTime_def split: option.splits reply.splits)
  with a have o: "resolved (openPage env)" by simp
  show ?thesis
    using a o
    by (simp add: body_chain bodyChain_def snd_seq resolved_seq steps_append openPage_steps
          navigate_steps detectBlockPage_snd navigate_resolved detect_resolved)
qed

text \<open>
  Claim C5. \<open>sendOTP\<close> fails with the access-denied error exactly when the browser, the
  page and the navigation succeeded in time and the title then read from the page
  (\<open>Unknown\<close> when reading it failed) contains \<open>access denied\<close> in any letter case, which
  covers the title \<open>Access Denied\<close> itself. In that case the error is the one whose
  message says that Zomato detected an automated browser and blocked access, the calls
  made stop after the title was read (no login click, no iframe, no typing, no OTP
  request), and no session is cached.
\<close>

theorem access_denied:
  "(fst (sendOTP env identifier countryCode type_arg w) = Rejects (Error accessDeniedMessage)) =
     (navigated env \<and> accessDenied (observedTitle env)) \<and>
   accessDenied (observedTitle env) =
     (\<exists>before rest. toLowerCase (observedTitle env) = before @ ''access denied'' @ rest) \<and>
   (navigated env \<and> accessDenied (observedTitle env) \<longrightarrow>
      steps (calls w (snd (sendOTP env identifier countryCode type_arg w))) =
        [Navigate, DetectBlockPage] \<and>
      sessionCache (snd (sendOTP env identifier countryCode type_arg w)) = sessionCache w \<and>
      timers (snd (sendOTP env identifier countryCode type_arg w)) = timers w)"
proof (cases rule: sendOTP_cases [where env = env and i = "identifier" and c = countryCode
                                      and t = type_arg and w = w])
  case (launchFailed e0)
  then have "\<not> navigated env"
    by (auto simp: navigated_def launched_def inTime_def split: option.splits reply.splits)
  with launchFailed show ?thesis by (simp add: accessDenied_iff)
next
  case (bodyFailed b e0)
  let ?B = "body env identifier (typeOrDefault type_arg)"
  let ?w1 = "(emit (Launch # snd ?B) w)\<lparr>connected := insert b (connected w)\<rparr>"
  obtain r w' where c: "closeAndRethrow env b e0 ?w1 = (r, w')" by (cases "closeAndRethrow env b e0 ?w1")
  note f = closeAndRethrow_facts [OF c]
  have l: "inTime (launchBrowser env) 30000"
    using bodyFailed(1) by (auto simp: launched_def inTime_def)
  have n: "navigated env \<and> accessDenied (observedTitle env) \<longleftrightarrow> e0 = Error accessDeniedMessage"
    using body_fst [of env "identifier" "typeOrDefault type_arg"] bodyFailed(2) l
    by (auto simp: navigated_def)
  have t: "calls w w' = (Launch # snd ?B) @ (if isConnected env then [BrowserClose b] else [])"
    using f by (intro calls_append) (simp add: emit_def)
  have s: "e0 = Error accessDeniedMessage \<Longrightarrow> steps (calls w w') = [Navigate, DetectBlockPage]"
    using body_accessDenied_steps [of env "identifier" "typeOrDefault type_arg"] bodyFailed(2)
    by (simp add: t steps_append)
  show ?thesis
    using bodyFailed(3) c f n s by (auto simp: accessDenied_iff emit_def)
next
  case (success b p f)
  let ?B = "body env identifier (typeOrDefault type_arg)"
  let ?w1 = "(emit (Launch # snd ?B) w)\<lparr>connected := insert b (connected w)\<rparr>"
  obtain r w' where c: "cacheSession env b p f ?w1 = (r, w')" by (cases "cacheSession env b p f ?w1")
  note f = cacheSession_facts [OF c]
  have "\<not> (navigated env \<and> accessDenied (observedTitle env))"
    using body_fst [of env "identifier" "typeOrDefault type_arg"] success(2)
    by (auto simp: navigated_def)
  with success(3) c f show ?thesis by (auto simp: accessDenied_iff)
qed

theorem access_denied_witness:
  "navigated blockedEnv \<and> accessDenied (observedTitle blockedEnv) \<and>
   fst (sendOTP blockedEnv (JStr ''9014884219'') (JStr ''1'') (JStr ''phone'') initial) =
     Rejects (Error accessDeniedMessage) \<and>
   steps (calls initial (snd (sendOTP blockedEnv (JStr ''9014884219'') (JStr ''1'') (JStr ''phone'') initial)))
     = [Navigate, DetectBlockPage] \<and>
   sessionCache (snd (sendOTP blockedEnv (JStr ''9014884219'') (JStr ''1'') (JStr ''phone'') initial))
     = sessionCache initial \<and>
   \<not> accessDenied (observedTitle okEnv) \<and>
   fst (sendOTP okEnv (JStr ''9014884219'') (JStr ''1'') (JStr ''phone'') initial)
     \<noteq> Rejects (Error accessDeniedMessage)"
proof -
  have n: "navigated blockedEnv"
    by (simp add: navigated_def inTime_def blockedEnv_def okEnv_def)
  have a: "accessDenied (observedTitle blockedEnv)"
    by (simp add: accessDenied_def observedTitle_def toLowerCase_def toLowerCaseChar_def
          blockedEnv_def okEnv_def)
  have b: "\<not> accessDenied (observedTitle okEnv)"
    by (simp add: accessDenied_def observedTitle_def toLowerCase_def toLowerCaseChar_def okEnv_def)
  from access_denied [of blockedEnv "JStr ''9014884219''" "JStr ''1''" "JStr ''phone''" initial]
       access_denied [of okEnv "JStr ''9014884219''" "JStr ''1''" "JStr ''phone''" initial] n a b
  show ?thesis by simp
qed

section \<open>The entries of the session cache\<close>

lemma sendOTP_okEnv:
  "type_arg \<noteq> JStr ''email'' \<Longrightarrow>
   sendOTP okEnv identifier countryCode type_arg initial =
     (Resolves sampleId,
      \<lparr>sessionCache = [sampleId \<mapsto> \<lparr>browser = 1, page = 2, frame = 3\<rparr>],
       timers = [(300000, Cleanup 1 sampleId)], clock = 0, connected = {1},
       trace = phoneCalls identifier @ [SessionCacheSet sampleId, SetTimeout 300000]\<rparr>)"
  by (simp add: sendOTP_def launchStep_okEnv okEnv_body_phone cacheSession_def emit_def initial_def
        phoneCalls_def sampleId_def Let_def)
     (simp add: okEnv_def)

lemma sendOTP_resolved:
  assumes "sendOTP env identifier countryCode type_arg w = (Resolves sid, w')"
  shows "sid = uuidv4 env \<and>
         (\<exists>b p f. launched env b \<and> producedHandles env = Some \<lparr>browser = b, page = p, frame = f\<rparr> \<and>
            sessionCache w' = (sessionCache w)(sid \<mapsto> \<lparr>browser = b, page = p, frame = f\<rparr>) \<and>
            timers w' = timers w @ [(clock w + 5 * 60 * 1000, Cleanup b sid)] \<and>
            clock w' = clock w \<and> connected w' = insert b (connected w) \<and>
            trace w' = trace w @ Launch # snd (body env identifier (typeOrDefault type_arg))
                         @ [SessionCacheSet sid, SetTimeout (5 * 60 * 1000)] \<and>
            fst (body env identifier (typeOrDefault type_arg)) = Resolves (p, f))"
proof (cases rule: sendOTP_cases [where env = env and i = "identifier" and c = countryCode
                                      and t = type_arg and w = w])
  case (launchFailed e0)
  with assms show ?thesis by simp
next
  case (bodyFailed b e0)
  with assms closeAndRethrow_facts [of env b e0 _ "Resolves sid" w'] show ?thesis by auto
next
  case (success b p f)
  from success(3) assms cacheSession_facts [of env b p f _ "Resolves sid" w']
  have c: "sid = uuidv4 env"
    "sessionCache w' = (sessionCache w)(uuidv4 env \<mapsto> \<lparr>browser = b, page = p, frame = f\<rparr>)"
    "timers w' = timers w @ [(clock w + 5 * 60 * 1000, Cleanup b (uuidv4 env))]"
    "clock w' = clock w" "connected w' = insert b (connected w)"
    "trace w' = trace w @ Launch # snd (body env identifier (typeOrDefault type_arg))
                         @ [SessionCacheSet (uuidv4 env), SetTimeout (5 * 60 * 1000)]"
    by (auto simp: emit_def)
  have "producedHandles env = Some \<lparr>browser = b, page = p, frame = f\<rparr>"
    using success(1) body_Resolves [OF success(2)] by (auto simp: producedHandles_def launched_def)
  with c success(1,2) show ?thesis by auto
qed









section \<open>The cleanup callback\<close>

lemma timers_callbacks:
  "timers (foldl (\<lambda>w' (t, cb). runCallback cb w') w0 xs) = timers w0 \<and>
   clock (foldl (\<lambda>w' (t, cb). runCallback cb w') w0 xs) = clock w0"
proof (induction xs arbitrary: w0)
  case Nil
  show ?case by simp
next
  case (Cons x xs)
  obtain t cb where x: "x = (t, cb)" by (cases x)
  obtain b s where cb: "cb = Cleanup b s" by (cases cb)
  show ?case using Cons.IH [of "runCallback cb w0"] by (simp add: x cb)
qed

lemma timers_advance:
  "timers (advance d w) = filter (\<lambda>(t, cb). \<not> t \<le> clock w + d) (timers w)"
  by (simp add: advance_def Let_def timers_callbacks)

lemma connected_callbacks:
  "b \<in> connected w0 \<Longrightarrow> \<forall>t s. (t, Cleanup b s) \<notin> set xs \<Longrightarrow>
   b \<in> connected (foldl (\<lambda>w' (t, cb). runCallback cb w') w0 xs)"
proof (induction xs arbitrary: w0)
  case Nil
  then show ?case by simp
next
  case (Cons x xs)
  obtain t cb where x: "x = (t, cb)" by (cases x)
  obtain b' s where cb: "cb = Cleanup b' s" by (cases cb)
  from Cons.prems(2) have ne: "b' \<noteq> b" by (auto simp: x cb)
  have "b \<in> connected (runCallback cb w0)"
    using Cons.prems(1) ne by (simp add: cb)
  moreover have "\<forall>t s. (t, Cleanup b s) \<notin> set xs"
    using Cons.prems(2) by simp
  ultimately show ?case
    using Cons.IH [of "runCallback cb w0"] by (simp add: x)
qed

lemma advance_last_due:
  assumes "timers w = ts @ [(t0, cb)]" "t0 \<le> clock w + d"
  shows "advance d w = runCallback cb (advance d (w\<lparr>timers := ts\<rparr>))"
  using assms by (simp add: advance_def Let_def)

lemma runCallback_connected:
  "b \<in> connected w2 \<Longrightarrow>
   sessionCache (runCallback (Cleanup b sid) w2) sid = None \<and>
   b \<notin> connected (runCallback (Cleanup b sid) w2) \<and>
   calls w2 (runCallback (Cleanup b sid) w2) = [BrowserClose b, SessionCacheDelete sid]"
  by (simp add: calls_def)

lemma trace_callbacks:
  "\<exists>evs. trace (foldl (\<lambda>w' (t, cb). runCallback cb w') w0 xs) = trace w0 @ evs"
proof (induction xs arbitrary: w0)
  case Nil
  show ?case by simp
next
  case (Cons x xs)
  obtain t cb where x: "x = (t, cb)" by (cases x)
  obtain b s where cb: "cb = Cleanup b s" by (cases cb)
  from Cons.IH [of "runCallback cb w0"] obtain evs where
    "trace (foldl (\<lambda>w' (t, cb). runCallback cb w') (runCallback cb w0) xs) = trace (runCallback cb w0) @ evs"
    by blast
  then show ?case by (auto simp: x cb)
qed

lemma trace_advance: "\<exists>evs. trace (advance d w) = trace w @ evs"
  using trace_callbacks
    [of "w\<lparr>clock := clock w + d, timers := filter (\<lambda>(t, cb). \<not> t \<le> clock w + d) (timers w)\<rparr>"
        "filter (\<lambda>(t, cb). t \<le> clock w + d) (timers w)"]
  by (simp add: advance_def Let_def)

text \<open>
  Claim C1, as amended. A successful call of \<open>sendOTP\<close> stores its entry and sets one
  timer, due 5 * 60 * 1000 ms after the entry was stored. The timer is still pending at
  any earlier time. When its callback runs and the session's browser is still connected,
  the callback calls \<open>close()\<close> on that browser and removes the session's entry; so, if
  no older timer is about the same browser and the browser does not lose its connection
  meanwhile, five minutes after the call the entry is gone and the browser is closed.
  (When the browser is no longer connected at that time the callback does nothing, and
  the claim as first stated fails: see the counterexample.)
\<close>

theorem cleanup_after_five_minutes:
  assumes "sendOTP env identifier countryCode type_arg w = (Resolves sid, w')"
  shows "\<exists>h. sessionCache w' sid = Some h \<and>
           timers w' = timers w @ [(clock w' + 5 * 60 * 1000, Cleanup (browser h) sid)] \<and>
           (\<forall>d < 5 * 60 * 1000.
               (clock w' + 5 * 60 * 1000, Cleanup (browser h) sid) \<in> set (timers (advance d w'))) \<and>
           (\<forall>w2. browser h \<in> connected w2 \<longrightarrow>
               sessionCache (runCallback (Cleanup (browser h) sid) w2) sid = None \<and>
               browser h \<notin> connected (runCallback (Cleanup (browser h) sid) w2) \<and>
               calls w2 (runCallback (Cleanup (browser h) sid) w2) =
                 [BrowserClose (browser h), SessionCacheDelete sid]) \<and>
           ((\<forall>t s. (t, Cleanup (browser h) s) \<notin> set (timers w)) \<longrightarrow>
               sessionCache (advance (5 * 60 * 1000) w') sid = None \<and>
               browser h \<notin> connected (advance (5 * 60 * 1000) w') \<and>
               BrowserClose (browser h) \<in> set (calls w' (advance (5 * 60 * 1000) w')))"
proof -
  from sendOTP_resolved [OF assms] obtain b p f where
    r: "sessionCache w' = (sessionCache w)(sid \<mapsto> \<lparr>browser = b, page = p, frame = f\<rparr>)"
       "timers w' = timers w @ [(clock w + 5 * 60 * 1000, Cleanup b sid)]"
       "clock w' = clock w" "connected w' = insert b (connected w)"
    by blast
  let ?h = "\<lparr>browser = b, page = p, frame = f\<rparr>"
  let ?D = "5 * 60 * 1000 :: nat"
  have 1: "sessionCache w' sid = Some ?h" by (simp add: r)
  have 2: "timers w' = timers w @ [(clock w' + ?D, Cleanup b sid)]" by (simp add: r)
  have 3: "(clock w' + ?D, Cleanup b sid) \<in> set (timers (advance d w'))" if "d < ?D" for d
    using that by (simp add: timers_advance 2)
  have 4: "b \<in> connected w2 \<Longrightarrow>
             sessionCache (runCallback (Cleanup b sid) w2) sid = None \<and>
             b \<notin> connected (runCallback (Cleanup b sid) w2) \<and>
             calls w2 (runCallback (Cleanup b sid) w2) = [BrowserClose b, SessionCacheDelete sid]" for w2
    by (rule runCallback_connected)
  have 5: "sessionCache (advance ?D w') sid = None \<and> b \<notin> connected (advance ?D w') \<and>
           BrowserClose b \<in> set (calls w' (advance ?D w'))"
    if old: "\<forall>t s. (t, Cleanup b s) \<notin> set (timers w)"
  proof -
    let ?mid = "advance ?D (w'\<lparr>timers := timers w\<rparr>)"
    have a: "advance ?D w' = runCallback (Cleanup b sid) ?mid"
      using advance_last_due [OF 2, of ?D] by simp
    have "\<forall>t s. (t, Cleanup b s) \<notin> set (filter (\<lambda>(t, cb). t \<le> clock w' + ?D) (timers w))"
      using old by simp
    then have c: "b \<in> connected ?mid"
      unfolding advance_def Let_def
      by (intro connected_callbacks) (simp_all add: r)
    obtain evs where e: "trace ?mid = trace w' @ evs"
      using trace_advance [of ?D "w'\<lparr>timers := timers w\<rparr>"] by auto
    have "trace (advance ?D w') = trace w' @ evs @ [BrowserClose b, SessionCacheDelete sid]"
      using a c e by simp
    then have "calls w' (advance ?D w') = evs @ [BrowserClose b, SessionCacheDelete sid]"
      by (intro calls_append) simp
    with a c show ?thesis by simp
  qed
  show ?thesis
    using 1 2 3 4 5 by (intro exI [of _ ?h]) simp
qed

theorem cleanup_after_five_minutes_witness:
  "sendOTP okEnv (JStr ''9014884219'') (JStr ''1'') (JStr ''phone'') initial =
     (Resolves sampleId, snd (sendOTP okEnv (JStr ''9014884219'') (JStr ''1'') (JStr ''phone'') initial)) \<and>
   sessionCache (snd (sendOTP okEnv (JStr ''9014884219'') (JStr ''1'') (JStr ''phone'') initial)) sampleId
     = Some \<lparr>browser = 1, page = 2, frame = 3\<rparr> \<and>
   sessionCache (advance (5 * 60 * 1000)
      (snd (sendOTP okEnv (JStr ''9014884219'') (JStr ''1'') (JStr ''phone'') initial))) sampleId = None \<and>
   1 \<notin> connected (advance (5 * 60 * 1000)
      (snd (sendOTP okEnv (JStr ''9014884219'') (JStr ''1'') (JStr ''phone'') initial)))"
proof -
  let ?r = "sendOTP okEnv (JStr ''9014884219'') (JStr ''1'') (JStr ''phone'') initial"
  have h: "?r = (Resolves sampleId, snd ?r)" by (simp add: sendOTP_okEnv)
  have c: "sessionCache (snd ?r) sampleId = Some \<lparr>browser = 1, page = 2, frame = 3\<rparr>"
    by (simp add: sendOTP_okEnv)
  have t: "timers initial = []" by (simp add: initial_def)
  from cleanup_after_five_minutes [OF h] obtain h' where
    "sessionCache (snd ?r) sampleId = Some h'"
    "(\<forall>t s. (t, Cleanup (browser h') s) \<notin> set (timers initial)) \<longrightarrow>
       sessionCache (advance (5 * 60 * 1000) (snd ?r)) sampleId = None \<and>
       browser h' \<notin> connected (advance (5 * 60 * 1000) (snd ?r)) \<and>
       BrowserClose (browser h') \<in> set (calls (snd ?r) (advance (5 * 60 * 1000) (snd ?r)))"
    by blast
  with c t h show ?thesis by simp
qed

theorem session_survives_counterexample:
  "sessionCache
     (run [CallSendOTP okEnv (JStr ''9014884219'') (JStr ''1'') (JStr ''phone''),
           Disconnect 1, Advance (5 * 60 * 1000), Advance 1] initial) sampleId
     = Some \<lparr>browser = 1, page = 2, frame = 3\<rparr> \<and>
   clock (run [CallSendOTP okEnv (JStr ''9014884219'') (JStr ''1'') (JStr ''phone''),
           Disconnect 1, Advance (5 * 60 * 1000), Advance 1] initial) = 300001 \<and>
   timers (run [CallSendOTP okEnv (JStr ''9014884219'') (JStr ''1'') (JStr ''phone''),
           Disconnect 1, Advance (5 * 60 * 1000), Advance 1] initial) = []"
  by (simp add: run_def sendOTP_okEnv advance_def Let_def)

section \<open>The order of the steps of \<open>sendOTP\<close>\<close>





section \<open>The email path and the phone path\<close>




















section \<open>The answer of the handler to an error\<close>

lemma sendOTP_rejects_message:
  assumes "sendOTP env identifier countryCode type_arg w = (Rejects e, w')"
  shows "message e \<noteq> None"
proof (cases rule: sendOTP_cases [where env = env and i = "identifier" and c = countryCode
                                      and t = type_arg and w = w])
  case (launchFailed e0)
  with assms show ?thesis by simp
next
  case (bodyFailed b e0)
  with assms closeAndRethrow_facts [of env b e0 _ "Rejects e" w']
  have "e = e0" by auto
  with bodyFailed(2) body_fst [of env "identifier" "typeOrDefault type_arg"] show ?thesis by simp
next
  case (success b p f)
  with assms cacheSession_facts [of env b p f _ "Rejects e" w'] show ?thesis by auto
qed

text \<open>
  Claim C9, as amended. When \<open>sendOTP\<close> throws, the handler answers with status 403 if
  and only if the message of the thrown error contains \<open>detected automated browser\<close>,
  and with status 500 for every other error; in both cases the body has \<open>success:
  false\<close> and, as \<open>error\<close>, the message of the error when that message is not empty and
  \<open>Failed to send OTP\<close> when it is empty. (The claim as first stated, that the body
  always has the error's message, fails for an error with an empty message.)
\<close>

theorem handler_error_response:
  assumes "httpMethod ev = ''POST''"
    and "JSON_parse (case requestBody ev of None \<Rightarrow> ''{}'' | Some s \<Rightarrow> if s = [] then ''{}'' else s)
           = Inr parsed"
    and "destructure parsed = Inr (identifier, countryCode, type')"
    and "\<not> falsy identifier"
    and "sendOTP env identifier countryCode type' w = (Rejects e, w')"
  shows "\<exists>m. message e = Some m \<and>
           handler JSON_parse env ev w =
             (Resolves
                \<lparr>statusCode = (if includes_str m ''detected automated browser'' then 403 else 500),
                 headers = corsHeaders,
                 responseBody = JSON_stringify
                   (JObj [(''success'', JBool False),
                          (''error'', JStr (if m = [] then ''Failed to send OTP'' else m))])\<rparr>,
              w') \<and>
           includes_str m ''detected automated browser'' =
             (\<exists>before rest. m = before @ ''detected automated browser'' @ rest)"
proof -
  from sendOTP_rejects_message [OF assms(5)] obtain m where m: "message e = Some m" by auto
  have "handler JSON_parse env ev w = errorResponse e w'"
    using assms by (simp add: handler_def)
  with m show ?thesis
    by (simp add: errorResponse_def includes_str_iff)
qed

lemma sampleRequest_parsed:
  "httpMethod sampleRequest = ''POST''"
  "sampleParse (case requestBody sampleRequest of None \<Rightarrow> ''{}'' | Some s \<Rightarrow> if s = [] then ''{}'' else s)
     = Inr (JObj [(''identifier'', JStr ''9014884219''), (''countryCode'', JStr ''1''),
                  (''type'', JStr ''phone'')])"
  "destructure (JObj [(''identifier'', JStr ''9014884219''), (''countryCode'', JStr ''1''),
                      (''type'', JStr ''phone'')])
     = Inr (JStr ''9014884219'', JStr ''1'', JStr ''phone'')"
  "\<not> falsy (JStr ''9014884219'')"
  by (simp_all add: sampleRequest_def sampleParse_def sampleBody_def destructure_def property_def)

lemma emptyMessageEnv_body:
  "body emptyMessageEnv identifier ty =
     (Rejects (LibraryError []),
      [NewPage, EvaluateOnNewDocument, EvaluateOnNewDocument, SetViewport, SetExtraHTTPHeaders,
       SetUserAgent userAgent, Goto ''https://partner.zomato.com/login''])"
  by (simp add: body_def openPage_def makePageStealth_def navigate_def
        act_eval timed_eval call_def ret_def delay_def zomatoPartnersUrl_def throw_def
        emptyMessageEnv_def okEnv_def)

lemma sendOTP_emptyMessageEnv:
  "sendOTP emptyMessageEnv identifier countryCode type_arg initial =
     (Rejects (LibraryError []),
      \<lparr>sessionCache = Map.empty, timers = [], clock = 0, connected = {},
       trace = [Launch, NewPage, EvaluateOnNewDocument, EvaluateOnNewDocument, SetViewport,
                SetExtraHTTPHeaders, SetUserAgent userAgent,
                Goto ''https://partner.zomato.com/login'', BrowserClose 1]\<rparr>)"
proof -
  have l: "launchStep emptyMessageEnv = (Resolves 1, [Launch])"
    by (simp add: launchStep_def timed_eval emptyMessageEnv_def okEnv_def)
  show ?thesis
    by (simp add: sendOTP_def l emptyMessageEnv_body closeAndRethrow_def emit_def initial_def)
       (simp add: emptyMessageEnv_def okEnv_def)
qed

theorem handler_error_response_witness:
  "handler sampleParse blockedEnv sampleRequest initial =
     (Resolves
        \<lparr>statusCode = 403, headers = corsHeaders,
         responseBody = JSON_stringify
           (JObj [(''success'', JBool False), (''error'', JStr accessDeniedMessage)])\<rparr>,
      snd (sendOTP blockedEnv (JStr ''9014884219'') (JStr ''1'') (JStr ''phone'') initial)) \<and>
   handler sampleParse stuckEnv sampleRequest initial =
     (Resolves
        \<lparr>statusCode = 500, headers = corsHeaders,
         responseBody = JSON_stringify
           (JObj [(''success'', JBool False), (''error'', JStr ''net::ERR_NAME_NOT_RESOLVED'')])\<rparr>,
      snd (sendOTP stuckEnv (JStr ''9014884219'') (JStr ''1'') (JStr ''phone'') initial))"
proof -
  let ?b = "sendOTP blockedEnv (JStr ''9014884219'') (JStr ''1'') (JStr ''phone'') initial"
  let ?s = "sendOTP stuckEnv (JStr ''9014884219'') (JStr ''1'') (JStr ''phone'') initial"
  have b: "?b = (Rejects (Error accessDeniedMessage), snd ?b)" by (simp add: sendOTP_blockedEnv)
  have s: "?s = (Rejects (LibraryError ''net::ERR_NAME_NOT_RESOLVED''), snd ?s)"
    by (simp add: sendOTP_stuckEnv)
  have i: "includes_str accessDeniedMessage ''detected automated browser''"
    "\<not> includes_str ''net::ERR_NAME_NOT_RESOLVED'' ''detected automated browser''"
    "accessDeniedMessage \<noteq> []"
    by (simp_all add: accessDeniedMessage_def)
  from handler_error_response [where JSON_parse = sampleParse and ev = sampleRequest, OF sampleRequest_parsed b] i
  have 1: "handler sampleParse blockedEnv sampleRequest initial =
     (Resolves
        \<lparr>statusCode = 403, headers = corsHeaders,
         responseBody = JSON_stringify
           (JObj [(''success'', JBool False), (''error'', JStr accessDeniedMessage)])\<rparr>, snd ?b)"
    by auto
  from handler_error_response [where JSON_parse = sampleParse and ev = sampleRequest, OF sampleRequest_parsed s] i
  have 2: "handler sampleParse stuckEnv sampleRequest initial =
     (Resolves
        \<lparr>statusCode = 500, headers = corsHeaders,
         responseBody = JSON_stringify
           (JObj [(''success'', JBool False), (''error'', JStr ''net::ERR_NAME_NOT_RESOLVED'')])\<rparr>, snd ?s)"
    by auto
  from 1 2 show ?thesis by simp
qed

theorem empty_message_counterexample:
  "fst (sendOTP emptyMessageEnv (JStr ''9014884219'') (JStr ''1'') (JStr ''phone'') initial) =
     Rejects (LibraryError []) \<and>
   message (LibraryError []) = Some [] \<and>
   fst (handler sampleParse emptyMessageEnv sampleRequest initial) =
     Resolves
       \<lparr>statusCode = 500, headers = corsHeaders,
        responseBody = JSON_stringify
          (JObj [(''success'', JBool False), (''error'', JStr ''Failed to send OTP'')])\<rparr>"
  by (simp add: handler_def sampleRequest_parsed sendOTP_emptyMessageEnv errorResponse_def)

end
